theory Spec2Isabelle
  imports Complex_Main
begin

section \<open>Tensors and the array operations the notebooks use\<close>

text \<open>
  The notebooks compute on two-dimensional float64 tensors. A tensor is modelled with its
  column count and its rows, so that a tensor with no rows still has a shape, as in
  torch. Entries are modelled as real numbers, and a mean over no elements (NaN in
  torch) is \<open>None\<close>. Rounding is modelled where it decides a property: the
  reconstruction loss is given in float64 arithmetic as well. Every exception the
  operations raise is a value of \<open>py_error\<close>.
\<close>

datatype py_error = IndexError | RuntimeError | AssertionError | ValueError | StructureError

datatype tensor = Tensor (ncols: nat) (rows: "real list list")

definition nrows :: "tensor \<Rightarrow> nat" where
  "nrows t = length (rows t)"

definition shape :: "tensor \<Rightarrow> nat list" where
  "shape t = [nrows t, ncols t]"

definition wf_tensor :: "tensor \<Rightarrow> bool" where
  "wf_tensor t = list_all (\<lambda>r. length r = ncols t) (rows t)"

definition numel :: "tensor \<Rightarrow> nat" where
  "numel t = nrows t * ncols t"

text \<open>\<^verbatim>\<open>torch.zeros(n, m)\<close>: a negative size raises.\<close>

definition torch_zeros :: "int \<Rightarrow> nat \<Rightarrow> py_error + tensor" where
  "torch_zeros n m =
     (if n < 0 then Inl RuntimeError
      else Inr (Tensor m (replicate (nat n) (replicate m 0))))"

text \<open>\<^verbatim>\<open>torch.cat([a, b], dim=0)\<close>: the column counts must agree.\<close>

definition cat_dim0 :: "tensor \<Rightarrow> tensor \<Rightarrow> py_error + tensor" where
  "cat_dim0 a b =
     (if ncols a = ncols b then Inr (Tensor (ncols a) (rows a @ rows b))
      else Inl RuntimeError)"

text \<open>\<^verbatim>\<open>torch.cat([a, b], dim=-1)\<close>: the row counts must agree.\<close>

definition cat_dim1 :: "tensor \<Rightarrow> tensor \<Rightarrow> py_error + tensor" where
  "cat_dim1 a b =
     (if nrows a = nrows b
      then Inr (Tensor (ncols a + ncols b) (map2 (@) (rows a) (rows b)))
      else Inl RuntimeError)"

text \<open>\<^verbatim>\<open>t[:, idx]\<close> with a list of column indices: an index past the last
  column raises, whatever the number of rows.\<close>

definition index_cols :: "tensor \<Rightarrow> nat list \<Rightarrow> py_error + tensor" where
  "index_cols t idx =
     (if list_all (\<lambda>j. j < ncols t) idx
      then Inr (Tensor (length idx) (map (\<lambda>r. map (\<lambda>j. r ! j) idx) (rows t)))
      else Inl IndexError)"


definition tabs :: "tensor \<Rightarrow> tensor" where
  "tabs t = Tensor (ncols t) (map (map abs) (rows t))"

definition tsum :: "tensor \<Rightarrow> real" where
  "tsum t = sum_list (map sum_list (rows t))"

definition tmean :: "tensor \<Rightarrow> real option" where
  "tmean t = (if numel t = 0 then None else Some (tsum t / real (numel t)))"

text \<open>Broadcasting of one dimension: equal sizes, or one of them is 1.\<close>

definition bdim :: "nat \<Rightarrow> nat \<Rightarrow> nat option" where
  "bdim a b = (if a = b then Some a else if a = 1 then Some b else if b = 1 then Some a else None)"

definition expand :: "nat \<Rightarrow> 'a list \<Rightarrow> 'a list" where
  "expand k xs = (if length xs = k then xs else replicate k (hd xs))"

text \<open>\<^verbatim>\<open>a - b\<close> on two-dimensional tensors, with broadcasting.\<close>

definition tsub :: "tensor \<Rightarrow> tensor \<Rightarrow> py_error + tensor" where
  "tsub a b =
     (case (bdim (nrows a) (nrows b), bdim (ncols a) (ncols b)) of
        (Some n, Some m) \<Rightarrow>
          Inr (Tensor m (map2 (\<lambda>r s. map2 (-) (expand m r) (expand m s))
                          (expand n (rows a)) (expand n (rows b))))
      | _ \<Rightarrow> Inl RuntimeError)"

text \<open>\<^verbatim>\<open>a + b\<close> on two-dimensional arrays, with broadcasting.\<close>

definition tadd :: "tensor \<Rightarrow> tensor \<Rightarrow> py_error + tensor" where
  "tadd a b =
     (case (bdim (nrows a) (nrows b), bdim (ncols a) (ncols b)) of
        (Some n, Some m) \<Rightarrow>
          Inr (Tensor m (map2 (\<lambda>r s. map2 (+) (expand m r) (expand m s))
                          (expand n (rows a)) (expand n (rows b))))
      | _ \<Rightarrow> Inl RuntimeError)"

section \<open>The reconstruction loss and the two axis permutations\<close>

text \<open>
  The loss of both phases of the training loop:
  \<^verbatim>\<open>loss = ((output - data.y[:, [1, 2, 0]]).abs()).mean()\<close>
\<close>

definition recon_loss :: "tensor \<Rightarrow> tensor \<Rightarrow> py_error + real option" where
  "recon_loss output y =
     (case index_cols y [1, 2, 0] of
        Inl e \<Rightarrow> Inl e
      | Inr yp \<Rightarrow> (case tsub output yp of
                     Inl e \<Rightarrow> Inl e
                   | Inr d \<Rightarrow> Inr (tmean (tabs d))))"

text \<open>
  The same error measured in the target's component order, with the permutation of the
  reconstruction step \<^verbatim>\<open>output[:, [2, 0, 1]]\<close> applied to the prediction:
  \<^verbatim>\<open>mean(|o[:, [2, 0, 1]] - y|)\<close>. This definition follows the claim's formula; it
  is compared with \<open>recon_loss\<close>.
\<close>

definition recon_loss_target_order :: "tensor \<Rightarrow> tensor \<Rightarrow> py_error + real option" where
  "recon_loss_target_order output y =
     (case index_cols output [2, 0, 1] of
        Inl e \<Rightarrow> Inl e
      | Inr op \<Rightarrow> (case tsub op y of
                     Inl e \<Rightarrow> Inl e
                   | Inr d \<Rightarrow> Inr (tmean (tabs d))))"

section \<open>The reconstruction loss in float64 arithmetic\<close>

text \<open>
  The notebooks set \<^verbatim>\<open>torch.set_default_dtype(torch.float64)\<close>. Where the order of
  the additions matters, the loss is also given in IEEE 754 binary64 arithmetic: a
  double is a real number that the format represents, and every operation returns the
  exact result rounded to the nearest double, ties to the even significand. \<open>ulp x\<close> is the
  spacing of the doubles around \<open>x\<close> (52 fraction bits, smallest normal exponent -1022).
  Overflow to infinity is not modelled: the values are far below \<open>2 ^ 1024\<close>.
\<close>

definition round_half_even :: "real \<Rightarrow> int" where
  "round_half_even q =
     (let f = \<lfloor>q\<rfloor>
      in if q - of_int f < 1 / 2 then f
         else if 1 / 2 < q - of_int f then f + 1
         else if even f then f else f + 1)"

definition ulp :: "real \<Rightarrow> real" where
  "ulp x = 2 powr (of_int (max \<lfloor>log 2 \<bar>x\<bar>\<rfloor> (- 1022)) - 52)"

definition round_f64 :: "real \<Rightarrow> real" where
  "round_f64 x = (if x = 0 then 0 else of_int (round_half_even (x / ulp x)) * ulp x)"

text \<open>\<^verbatim>\<open>a - b\<close> in float64: each difference is rounded.\<close>

definition tsub_f64 :: "tensor \<Rightarrow> tensor \<Rightarrow> py_error + tensor" where
  "tsub_f64 a b =
     (case tsub a b of
        Inl e \<Rightarrow> Inl e
      | Inr d \<Rightarrow> Inr (Tensor (ncols d) (map (map round_f64) (rows d))))"

text \<open>\<^verbatim>\<open>.mean()\<close> in float64: the entries are added one after the other in storage
  order (row by row), each partial sum rounded, and the sum is divided by the number of
  entries.\<close>

definition tsum_f64 :: "tensor \<Rightarrow> real" where
  "tsum_f64 t = foldl (\<lambda>s v. round_f64 (s + v)) 0 (concat (rows t))"

definition tmean_f64 :: "tensor \<Rightarrow> real option" where
  "tmean_f64 t = (if numel t = 0 then None else Some (round_f64 (tsum_f64 t / real (numel t))))"

text \<open>\<^verbatim>\<open>loss = ((output - data.y[:, [1, 2, 0]]).abs()).mean()\<close> in float64, and the
  formula of the claim, \<^verbatim>\<open>mean(|o[:, [2, 0, 1]] - y|)\<close>, in float64.\<close>

definition recon_loss_f64 :: "tensor \<Rightarrow> tensor \<Rightarrow> py_error + real option" where
  "recon_loss_f64 output y =
     (case index_cols y [1, 2, 0] of
        Inl e \<Rightarrow> Inl e
      | Inr yp \<Rightarrow> (case tsub_f64 output yp of
                     Inl e \<Rightarrow> Inl e
                   | Inr d \<Rightarrow> Inr (tmean_f64 (tabs d))))"

definition recon_loss_target_order_f64 :: "tensor \<Rightarrow> tensor \<Rightarrow> py_error + real option" where
  "recon_loss_target_order_f64 output y =
     (case index_cols output [2, 0, 1] of
        Inl e \<Rightarrow> Inl e
      | Inr op \<Rightarrow> (case tsub_f64 op y of
                     Inl e \<Rightarrow> Inl e
                   | Inr d \<Rightarrow> Inr (tmean_f64 (tabs d))))"

section \<open>Feature composition\<close>

text \<open>
  An irreducible-representation list of e3nn is a list of triples (multiplicity, L,
  parity); \<^verbatim>\<open>rs.dim\<close> of the library is the sum of \<open>mul * (2 * L + 1)\<close>.
\<close>

type_synonym irrep = "nat \<times> nat \<times> int"

definition rs_dim :: "irrep list \<Rightarrow> nat" where
  "rs_dim Rs = sum_list (map (\<lambda>(m, L, p). m * (2 * L + 1)) Rs)"

text \<open>\<^verbatim>\<open>Rs_order_param\<close> of the notebook that determines the irreps, and of the two
  notebooks that use a pseudovector only.\<close>

definition Rs_order_param :: "irrep list" where
  "Rs_order_param = [(1, 0, 1), (1, 0, -1), (1, 1, 1), (1, 1, -1), (1, 2, 1), (1, 2, -1)]"

definition Rs_order_param_pseudovector :: "irrep list" where
  "Rs_order_param_pseudovector = [(1, 1, 1)]"

text \<open>\<^verbatim>\<open>atom_inputs = [A_input, B_input, X_input]\<close>, each of shape (1, 3).\<close>

definition atom_inputs :: "tensor list" where
  "atom_inputs = [Tensor 3 [[1, 0, 0]], Tensor 3 [[0, 1, 0]], Tensor 3 [[0, 0, 1]]]"

text \<open>\<^verbatim>\<open>[atom_inputs[i] for i in atom_indices]\<close>: an index past the list raises.\<close>

fun lookup_all :: "'a list \<Rightarrow> nat list \<Rightarrow> py_error + 'a list" where
  "lookup_all xs [] = Inr []"
| "lookup_all xs (i # js) =
     (if i < length xs
      then (case lookup_all xs js of Inl e \<Rightarrow> Inl e | Inr ys \<Rightarrow> Inr (xs ! i # ys))
      else Inl IndexError)"

text \<open>\<^verbatim>\<open>torch.cat(ts, dim=0)\<close> on a list: the empty list raises.\<close>

fun cat_list_dim0 :: "tensor list \<Rightarrow> py_error + tensor" where
  "cat_list_dim0 [] = Inl RuntimeError"
| "cat_list_dim0 [t] = Inr t"
| "cat_list_dim0 (t # u # ts) =
     (case cat_list_dim0 (u # ts) of Inl e \<Rightarrow> Inl e | Inr v \<Rightarrow> cat_dim0 t v)"

definition all_atom_types :: "nat list \<Rightarrow> py_error + tensor" where
  "all_atom_types atom_indices =
     (case lookup_all atom_inputs atom_indices of
        Inl e \<Rightarrow> Inl e
      | Inr ts \<Rightarrow> cat_list_dim0 ts)"

text \<open>
  The global \<^verbatim>\<open>zeros = torch.zeros(N - 4, rs.dim(Rs_order_param))\<close> with
  \<^verbatim>\<open>N = len(struct_221)\<close>. The structure files are data; the list
  \<open>atom_indices\<close> read from them (one entry per atom) is a parameter.
\<close>

definition zeros_block :: "irrep list \<Rightarrow> nat list \<Rightarrow> py_error + tensor" where
  "zeros_block Rs atom_indices = torch_zeros (int (length atom_indices) - 4) (rs_dim Rs)"

text \<open>
  The tail of all three variants:
  \<^verbatim>\<open>
  order_param = torch.cat([zeros, order_param_input], dim=0)
  all_atom_types = torch.cat([atom_inputs[i] for i in atom_indices], dim=0)
  return torch.cat([all_atom_types, order_param], dim=-1)
  \<close>
\<close>

definition stitch :: "irrep list \<Rightarrow> nat list \<Rightarrow> tensor \<Rightarrow> py_error + tensor" where
  "stitch Rs atom_indices order_param_input =
     (case zeros_block Rs atom_indices of
        Inl e \<Rightarrow> Inl e
      | Inr zeros \<Rightarrow>
          (case cat_dim0 zeros order_param_input of
             Inl e \<Rightarrow> Inl e
           | Inr order_param \<Rightarrow>
               (case all_atom_types atom_indices of
                  Inl e \<Rightarrow> Inl e
                | Inr aat \<Rightarrow> cat_dim1 aat order_param)))"

text \<open>The first notebook: the learnable tensor is the block of the special sites.\<close>

definition create_features :: "irrep list \<Rightarrow> nat list \<Rightarrow> tensor \<Rightarrow> py_error + tensor" where
  "create_features Rs atom_indices order_param_input = stitch Rs atom_indices order_param_input"

text \<open>
  The constrained variant:
  \<^verbatim>\<open>
  new_order_param = torch.stack([order_param_input[:, 0].repeat(2),
                                 torch.zeros(4),
                                 order_param_input[:, 1].repeat(2)], dim=-1)
  \<close>
\<close>

definition select_col :: "tensor \<Rightarrow> nat \<Rightarrow> py_error + real list" where
  "select_col t j = (if j < ncols t then Inr (map (\<lambda>r. r ! j) (rows t)) else Inl IndexError)"

definition repeat_1d :: "nat \<Rightarrow> real list \<Rightarrow> real list" where
  "repeat_1d k xs = concat (replicate k xs)"

definition stack3_last :: "real list \<Rightarrow> real list \<Rightarrow> real list \<Rightarrow> py_error + tensor" where
  "stack3_last a b c =
     (if length a = length b \<and> length b = length c
      then Inr (Tensor 3 (map (\<lambda>(x, y, z). [x, y, z]) (zip a (zip b c))))
      else Inl RuntimeError)"

definition create_features_constrained ::
  "irrep list \<Rightarrow> nat list \<Rightarrow> tensor \<Rightarrow> py_error + tensor" where
  "create_features_constrained Rs atom_indices order_param_input =
     (case select_col order_param_input 0 of
        Inl e \<Rightarrow> Inl e
      | Inr c0 \<Rightarrow>
          (case select_col order_param_input 1 of
             Inl e \<Rightarrow> Inl e
           | Inr c1 \<Rightarrow>
               (case stack3_last (repeat_1d 2 c0) (replicate 4 0) (repeat_1d 2 c1) of
                  Inl e \<Rightarrow> Inl e
                | Inr new_order_param \<Rightarrow> stitch Rs atom_indices new_order_param)))"

text \<open>
  The k-vector variant. Its first three statements compute the contribution of the
  special sites:
  \<^verbatim>\<open>
  perm_normalized_B_coords = normalized_B_coords[:, [1, 2, 0]]
  vol = 1.
  order_param_input = torch.cos(2 * math.pi / vol *
      (kvecs.unsqueeze(0) * perm_normalized_B_coords.unsqueeze(1)).sum(-1))   # [r, k]
  order_param_input = order_param_input.unsqueeze(-1) * pseudo_order_param_input.unsqueeze(0)
  order_param_input = order_param_input.sum(-2)
  \<close>
  The two products broadcast: \<open>(1, K, C) * (R, 1, C')\<close> and \<open>(R, K, 1) * (1, K', C'')\<close>.
\<close>

definition vol :: real where
  "vol = 1"

definition unsqueeze_mul_sum :: "tensor \<Rightarrow> tensor \<Rightarrow> py_error + tensor" where
  "unsqueeze_mul_sum kvecs coords =
     (case bdim (ncols kvecs) (ncols coords) of
        None \<Rightarrow> Inl RuntimeError
      | Some m \<Rightarrow>
          Inr (Tensor (nrows kvecs)
                 (map (\<lambda>c. map (\<lambda>kv. sum_list (map2 (*) (expand m kv) (expand m c))) (rows kvecs))
                    (rows coords))))"

definition tcos :: "tensor \<Rightarrow> tensor" where
  "tcos t = Tensor (ncols t) (map (map (\<lambda>d. cos (2 * pi / vol * d))) (rows t))"

definition sum_rows :: "nat \<Rightarrow> real list list \<Rightarrow> real list" where
  "sum_rows m rs = foldr (map2 (+)) rs (replicate m 0)"

definition unsqueeze_mul_sum2 :: "tensor \<Rightarrow> tensor \<Rightarrow> py_error + tensor" where
  "unsqueeze_mul_sum2 cs pseudo =
     (case bdim (ncols cs) (nrows pseudo) of
        None \<Rightarrow> Inl RuntimeError
      | Some k \<Rightarrow>
          Inr (Tensor (ncols pseudo)
                 (map (\<lambda>crow. sum_rows (ncols pseudo)
                                 (map2 (\<lambda>c prow. map ((*) c) prow) (expand k crow) (expand k (rows pseudo))))
                    (rows cs))))"

definition kvec_contribution :: "tensor \<Rightarrow> tensor \<Rightarrow> tensor \<Rightarrow> py_error + tensor" where
  "kvec_contribution kvecs pseudo_order_param_input normalized_B_coords =
     (case index_cols normalized_B_coords [1, 2, 0] of
        Inl e \<Rightarrow> Inl e
      | Inr perm_normalized_B_coords \<Rightarrow>
          (case unsqueeze_mul_sum kvecs perm_normalized_B_coords of
             Inl e \<Rightarrow> Inl e
           | Inr dots \<Rightarrow> unsqueeze_mul_sum2 (tcos dots) pseudo_order_param_input))"

text \<open>\<^verbatim>\<open>assert list(order_param_input.shape) == [4, 3]\<close>, then the common tail.\<close>

definition create_features_kvec ::
  "irrep list \<Rightarrow> nat list \<Rightarrow> tensor \<Rightarrow> tensor \<Rightarrow> tensor \<Rightarrow> py_error + tensor" where
  "create_features_kvec Rs atom_indices kvecs pseudo_order_param_input normalized_B_coords =
     (case kvec_contribution kvecs pseudo_order_param_input normalized_B_coords of
        Inl e \<Rightarrow> Inl e
      | Inr order_param_input \<Rightarrow>
          (if shape order_param_input = [4, 3] then stitch Rs atom_indices order_param_input
           else Inl AssertionError))"

text \<open>
  The formula of the specification for the k-vector variant, as it is worded:
  \<open>sum_k cos(2 pi (kvector_k . coord)) * order_param[k]\<close>, for one site.
\<close>

definition dot :: "real list \<Rightarrow> real list \<Rightarrow> real" where
  "dot a b = sum_list (map2 (*) a b)"

definition fourier_synthesis :: "tensor \<Rightarrow> tensor \<Rightarrow> real list \<Rightarrow> real list" where
  "fourier_synthesis kvecs order_param coord =
     sum_rows 3 (map2 (\<lambda>kv p. map ((*) (cos (2 * pi * dot kv coord))) p) (rows kvecs) (rows order_param))"

section \<open>The regularizer of the order parameters\<close>






section \<open>Structure alignment\<close>

text \<open>
  \<^verbatim>\<open>
  relative_vecs_62 = []
  for i, site in enumerate(struct_221):
      sites = struct_62.get_sites_in_sphere(site.coords, 1., include_index=True, include_image=True)
      sorted_sites = sorted(sites, key=lambda x: x[1])
      r = sorted_sites[0][0].coords - site.coords
      relative_vecs_62.append(r)
  relative_vecs_62 = np.stack(relative_vecs_62, axis=0)
  \<close>
  \<^verbatim>\<open>get_sites_in_sphere\<close> is a method of the crystallography library; called on
  \<^verbatim>\<open>struct_62\<close> it is a parameter here, a function of the centre and the radius. It
  returns tuples (site, distance, site index, image); of a site only the Cartesian
  coordinates are used. \<^verbatim>\<open>sorted\<close> is stable, as \<open>sort_key\<close> is.
\<close>

type_synonym vec3 = "real \<times> real \<times> real"

type_synonym neighbor = "vec3 \<times> real \<times> nat \<times> (int \<times> int \<times> int)"

definition vec_sub :: "vec3 \<Rightarrow> vec3 \<Rightarrow> vec3" where
  "vec_sub a b = (fst a - fst b, fst (snd a) - fst (snd b), snd (snd a) - snd (snd b))"

definition vec_norm :: "vec3 \<Rightarrow> real" where
  "vec_norm a = sqrt ((fst a)\<^sup>2 + (fst (snd a))\<^sup>2 + (snd (snd a))\<^sup>2)"

definition nearest_site :: "(vec3 \<Rightarrow> real \<Rightarrow> neighbor list) \<Rightarrow> vec3 \<Rightarrow> py_error + neighbor" where
  "nearest_site get_sites_in_sphere site =
     (let sites = get_sites_in_sphere site 1;
          sorted_sites = sort_key (\<lambda>x. fst (snd x)) sites
      in case sorted_sites of [] \<Rightarrow> Inl IndexError | n # _ \<Rightarrow> Inr n)"

definition relative_vec :: "(vec3 \<Rightarrow> real \<Rightarrow> neighbor list) \<Rightarrow> vec3 \<Rightarrow> py_error + vec3" where
  "relative_vec get_sites_in_sphere site =
     (case nearest_site get_sites_in_sphere site of
        Inl e \<Rightarrow> Inl e
      | Inr n \<Rightarrow> Inr (vec_sub (fst n) site))"

fun relative_vecs_loop :: "(vec3 \<Rightarrow> real \<Rightarrow> neighbor list) \<Rightarrow> vec3 list \<Rightarrow> py_error + vec3 list" where
  "relative_vecs_loop get_sites_in_sphere [] = Inr []"
| "relative_vecs_loop get_sites_in_sphere (site # struct_221) =
     (case relative_vec get_sites_in_sphere site of
        Inl e \<Rightarrow> Inl e
      | Inr r \<Rightarrow>
          (case relative_vecs_loop get_sites_in_sphere struct_221 of
             Inl e \<Rightarrow> Inl e
           | Inr rs \<Rightarrow> Inr (r # rs)))"

text \<open>\<^verbatim>\<open>np.stack\<close> of an empty list raises.\<close>

definition relative_vecs_62 :: "(vec3 \<Rightarrow> real \<Rightarrow> neighbor list) \<Rightarrow> vec3 list \<Rightarrow> py_error + vec3 list" where
  "relative_vecs_62 get_sites_in_sphere struct_221 =
     (case relative_vecs_loop get_sites_in_sphere struct_221 of
        Inl e \<Rightarrow> Inl e
      | Inr rs \<Rightarrow> (if rs = [] then Inl ValueError else Inr rs))"

text \<open>What the library promises of the search, for the centres and the radius of the
  loop: every site returned is reported with its distance from the centre, and that
  distance is within the radius. Whether a site at exactly the radius is within it is
  the library's choice: the comparison is a parameter.\<close>

definition sphere_search_contract ::
  "(real \<Rightarrow> real \<Rightarrow> bool) \<Rightarrow> (vec3 \<Rightarrow> real \<Rightarrow> neighbor list) \<Rightarrow> vec3 list \<Rightarrow> bool" where
  "sphere_search_contract inside get_sites_in_sphere struct_221 =
     list_all (\<lambda>c. list_all (\<lambda>n. fst (snd n) = vec_norm (vec_sub (fst n) c) \<and> inside (fst (snd n)) 1)
                      (get_sites_in_sphere c 1)) struct_221"

text \<open>Searches for examples: one that finds a single site, of index 1, half an
  Angstrom above the centre; one that finds two sites at the same distance; one that
  finds a site around the origin only.\<close>

definition search_one :: "vec3 \<Rightarrow> real \<Rightarrow> neighbor list" where
  "search_one c r =
     (if 1 / 2 \<le> r then [((fst c, fst (snd c), snd (snd c) + 1 / 2), 1 / 2, 1, (0, 0, 0))] else [])"

definition search_tie :: "vec3 \<Rightarrow> real \<Rightarrow> neighbor list" where
  "search_tie c r =
     (if 1 / 2 \<le> r
      then [((fst c, fst (snd c), snd (snd c) + 1 / 2), 1 / 2, 3, (0, 0, 0)),
            ((fst c, fst (snd c), snd (snd c) - 1 / 2), 1 / 2, 2, (0, 0, -1))]
      else [])"

definition search_origin :: "vec3 \<Rightarrow> real \<Rightarrow> neighbor list" where
  "search_origin c r = (if c = (0, 0, 0) then search_one c r else [])"

section \<open>Reconstruction and validation\<close>

text \<open>
  \<^verbatim>\<open>
  new_struct = Structure(new_lattice, struct_221.species,
                         struct_221.cart_coords + output.cpu()[:, [2, 0, 1]].detach().numpy(),
                         coords_are_cartesian=True)
  pga = SpacegroupAnalyzer(new_struct)
  pga.get_space_group_number()
  \<close>
  A structure is its lattice, its species and its Cartesian coordinates (the library
  keeps fractional coordinates; with the invertible lattice of the notebook the
  Cartesian coordinates it gives back are those passed in). The constructor of the
  library refuses a species list and a coordinate array of different lengths. The
  symmetry detector is a parameter.
\<close>

record crystal =
  lattice :: tensor
  species :: "string list"
  cart_coords :: tensor

definition Structure :: "tensor \<Rightarrow> string list \<Rightarrow> tensor \<Rightarrow> py_error + crystal" where
  "Structure latt spec coords =
     (if length spec \<noteq> nrows coords then Inl StructureError
      else Inr \<lparr>lattice = latt, species = spec, cart_coords = coords\<rparr>)"

definition new_struct :: "tensor \<Rightarrow> crystal \<Rightarrow> tensor \<Rightarrow> py_error + crystal" where
  "new_struct new_lattice struct_221 output =
     (case index_cols output [2, 0, 1] of
        Inl e \<Rightarrow> Inl e
      | Inr permuted \<Rightarrow>
          (case tadd (cart_coords struct_221) permuted of
             Inl e \<Rightarrow> Inl e
           | Inr coords \<Rightarrow> Structure new_lattice (species struct_221) coords))"

definition get_space_group_number ::
  "(crystal \<Rightarrow> nat) \<Rightarrow> tensor \<Rightarrow> crystal \<Rightarrow> tensor \<Rightarrow> py_error + nat" where
  "get_space_group_number SpacegroupAnalyzer new_lattice struct_221 output =
     (case new_struct new_lattice struct_221 output of
        Inl e \<Rightarrow> Inl e
      | Inr s \<Rightarrow> Inr (SpacegroupAnalyzer s))"

section \<open>The joint training loop\<close>

text \<open>
  \<^verbatim>\<open>
  opt = torch.optim.Adam(model.parameters(), 1e-3)
  order_opt = torch.optim.Adam([order_param_input], 1e-3)

  for i in range(max_iter):
      features = create_features(order_param_input)
      data = dh.DataPeriodicNeighbors(features, ..., y=relative_vecs_62)
      output = model(data.x, data.edge_index, data.edge_attr, n_norm=6)
      loss = ((output - data.y[:, [1, 2, 0]]).abs()).mean()
      if i % 10 == 0:
          print("model update: ", loss)
      opt.zero_grad()
      loss.backward()
      opt.step()

      features = create_features(order_param_input)
      data = dh.DataPeriodicNeighbors(features, ..., y=relative_vecs_62)
      output = model(data.x, data.edge_index, data.edge_attr, n_norm=6)
      loss = ((output - data.y[:, [1, 2, 0]]).abs()).mean().cpu()
      loss = loss + order_param_loss(order_param_input, Rs_order_param, scale=1e-2)
      if i % 10 == 0:
          print("order param update: ", loss)
      order_opt.zero_grad()
      loss.backward()
      order_opt.step()
  \<close>
  The state is what the loop mutates: the network weights and the order parameters,
  both leaves that require gradients, each with its \<^verbatim>\<open>.grad\<close> (\<open>None\<close> until the
  first backward pass), the states of the two optimizers, and the losses printed.

  The network, automatic differentiation and Adam are library code and are parameters:
  \<^item> \<open>features_of\<close> is the notebook's \<open>create_features\<close> with its globals;
  \<^item> \<open>network\<close> maps the weights and the features to the output;
  \<^item> \<open>autograd_model_phase\<close> and \<open>autograd_order_phase\<close> give the gradients of the
    loss of each phase with respect to the weights and to the order parameters, at the
    current values: both are leaves of the graph, since the features are built from
    \<open>order_param_input\<close>, so \<^verbatim>\<open>loss.backward()\<close> reaches both;
  \<^item> \<open>adam_model\<close> and \<open>adam_order\<close> are one step of each optimizer on its own
    parameter group: optimizer state, parameters and their gradient give the new
    optimizer state and parameters.
\<close>

record 's train_state =
  weights :: "real list"
  weights_grad :: "real list option"
  order_param_input :: tensor
  order_param_grad :: "tensor option"
  opt :: 's
  order_opt :: 's
  printed :: "real option list"

record 's externals =
  features_of :: "tensor \<Rightarrow> py_error + tensor"
  network :: "real list \<Rightarrow> tensor \<Rightarrow> tensor"
  target_y :: tensor
  regularizer :: "tensor \<Rightarrow> real option"
  autograd_model_phase :: "real list \<Rightarrow> tensor \<Rightarrow> real list \<times> tensor"
  autograd_order_phase :: "real list \<Rightarrow> tensor \<Rightarrow> real list \<times> tensor"
  adam_model :: "'s \<Rightarrow> real list \<Rightarrow> real list \<Rightarrow> 's \<times> real list"
  adam_order :: "'s \<Rightarrow> tensor \<Rightarrow> tensor \<Rightarrow> 's \<times> tensor"

text \<open>\<^verbatim>\<open>zero_grad\<close> sets an existing gradient to zero and leaves \<open>None\<close>;
  \<^verbatim>\<open>backward\<close> stores the gradient where there is none and adds it where there is one.\<close>

definition zero_grad_list :: "real list option \<Rightarrow> real list option" where
  "zero_grad_list g = map_option (map (\<lambda>_. 0)) g"

definition zero_grad_tensor :: "tensor option \<Rightarrow> tensor option" where
  "zero_grad_tensor g = map_option (\<lambda>t. Tensor (ncols t) (map (map (\<lambda>_. 0)) (rows t))) g"

definition accumulate_list :: "real list option \<Rightarrow> real list \<Rightarrow> real list" where
  "accumulate_list old g = (case old of None \<Rightarrow> g | Some a \<Rightarrow> map2 (+) a g)"

definition accumulate_tensor :: "tensor option \<Rightarrow> tensor \<Rightarrow> tensor" where
  "accumulate_tensor old g =
     (case old of None \<Rightarrow> g | Some a \<Rightarrow> Tensor (ncols a) (map2 (map2 (+)) (rows a) (rows g)))"

definition add_loss :: "real option \<Rightarrow> real option \<Rightarrow> real option" where
  "add_loss a b = (case (a, b) of (Some u, Some v) \<Rightarrow> Some (u + v) | _ \<Rightarrow> None)"

definition model_update :: "'s externals \<Rightarrow> nat \<Rightarrow> 's train_state \<Rightarrow> py_error + 's train_state" where
  "model_update ext i st =
     (case features_of ext (order_param_input st) of
        Inl e \<Rightarrow> Inl e
      | Inr features \<Rightarrow>
          (case recon_loss (network ext (weights st) features) (target_y ext) of
             Inl e \<Rightarrow> Inl e
           | Inr loss \<Rightarrow>
               (let st1 = st\<lparr>printed := (if i mod 10 = 0 then printed st @ [loss] else printed st)\<rparr>;
                    st2 = st1\<lparr>weights_grad := zero_grad_list (weights_grad st1)\<rparr>;
                    g = autograd_model_phase ext (weights st2) (order_param_input st2);
                    gw = accumulate_list (weights_grad st2) (fst g);
                    go = accumulate_tensor (order_param_grad st2) (snd g);
                    st3 = st2\<lparr>weights_grad := Some gw, order_param_grad := Some go\<rparr>;
                    step = adam_model ext (opt st3) (weights st3) gw
                in Inr (st3\<lparr>opt := fst step, weights := snd step\<rparr>))))"

definition order_update :: "'s externals \<Rightarrow> nat \<Rightarrow> 's train_state \<Rightarrow> py_error + 's train_state" where
  "order_update ext i st =
     (case features_of ext (order_param_input st) of
        Inl e \<Rightarrow> Inl e
      | Inr features \<Rightarrow>
          (case recon_loss (network ext (weights st) features) (target_y ext) of
             Inl e \<Rightarrow> Inl e
           | Inr loss0 \<Rightarrow>
               (let loss = add_loss loss0 (regularizer ext (order_param_input st));
                    st1 = st\<lparr>printed := (if i mod 10 = 0 then printed st @ [loss] else printed st)\<rparr>;
                    st2 = st1\<lparr>order_param_grad := zero_grad_tensor (order_param_grad st1)\<rparr>;
                    g = autograd_order_phase ext (weights st2) (order_param_input st2);
                    gw = accumulate_list (weights_grad st2) (fst g);
                    go = accumulate_tensor (order_param_grad st2) (snd g);
                    st3 = st2\<lparr>weights_grad := Some gw, order_param_grad := Some go\<rparr>;
                    step = adam_order ext (order_opt st3) (order_param_input st3) go
                in Inr (st3\<lparr>order_opt := fst step, order_param_input := snd step\<rparr>))))"

definition train_iteration :: "'s externals \<Rightarrow> nat \<Rightarrow> 's train_state \<Rightarrow> py_error + 's train_state" where
  "train_iteration ext i st =
     (case model_update ext i st of
        Inl e \<Rightarrow> Inl e
      | Inr st' \<Rightarrow> order_update ext i st')"

fun train_loop :: "'s externals \<Rightarrow> nat list \<Rightarrow> 's train_state \<Rightarrow> py_error + 's train_state" where
  "train_loop ext [] st = Inr st"
| "train_loop ext (i # js) st =
     (case train_iteration ext i st of
        Inl e \<Rightarrow> Inl e
      | Inr st' \<Rightarrow> train_loop ext js st')"

definition train :: "'s externals \<Rightarrow> nat \<Rightarrow> 's train_state \<Rightarrow> py_error + 's train_state" where
  "train ext max_iter st = train_loop ext [0..<max_iter] st"

text \<open>
  An instance for examples: six atoms, a pseudovector order parameter, a network with
  one weight that scales the order-parameter block, gradients of ones, and optimizers
  that count their steps and subtract the gradient. The initial state is the
  notebook's: zero order parameters and no gradient anywhere.
\<close>

definition example_network :: "real list \<Rightarrow> tensor \<Rightarrow> tensor" where
  "example_network w f = Tensor 3 (map (\<lambda>r. map (\<lambda>v. hd w * v) (drop 3 r)) (rows f))"

definition example_autograd :: "real list \<Rightarrow> tensor \<Rightarrow> real list \<times> tensor" where
  "example_autograd w x = ([1], Tensor 3 [[1, 1, 1], [1, 1, 1], [1, 1, 1], [1, 1, 1]])"

definition example_adam_model :: "nat \<Rightarrow> real list \<Rightarrow> real list \<Rightarrow> nat \<times> real list" where
  "example_adam_model s p g = (Suc s, map2 (-) p g)"

definition example_adam_order :: "nat \<Rightarrow> tensor \<Rightarrow> tensor \<Rightarrow> nat \<times> tensor" where
  "example_adam_order s p g = (Suc s, Tensor (ncols p) (map2 (map2 (-)) (rows p) (rows g)))"

definition example_regularizer :: "tensor \<Rightarrow> real option" where
  "example_regularizer x = map_option ((*) (1 / 100)) (tmean (tabs x))"

definition example_atom_indices :: "nat list" where
  "example_atom_indices = [0, 2, 1, 1, 1, 1]"

definition example_externals :: "nat externals" where
  "example_externals =
     \<lparr>features_of = create_features Rs_order_param_pseudovector example_atom_indices,
      network = example_network,
      target_y = Tensor 3 [[0, 0, 0], [0, 0, 0], [0, 0, 0], [0, 0, 0], [0, 0, 0], [0, 0, 0]],
      regularizer = example_regularizer,
      autograd_model_phase = example_autograd,
      autograd_order_phase = example_autograd,
      adam_model = example_adam_model,
      adam_order = example_adam_order\<rparr>"

definition example_state :: "nat train_state" where
  "example_state =
     \<lparr>weights = [1], weights_grad = None,
      order_param_input = Tensor 3 [[0, 0, 0], [0, 0, 0], [0, 0, 0], [0, 0, 0]],
      order_param_grad = None, opt = 0, order_opt = 0, printed = []\<rparr>"

text \<open>The state of the example after the model-update phase of the first iteration,
  and after its order-update phase.\<close>

definition example_state_1 :: "nat train_state" where
  "example_state_1 =
     \<lparr>weights = [0], weights_grad = Some [1],
      order_param_input = Tensor 3 [[0, 0, 0], [0, 0, 0], [0, 0, 0], [0, 0, 0]],
      order_param_grad = Some (Tensor 3 [[1, 1, 1], [1, 1, 1], [1, 1, 1], [1, 1, 1]]),
      opt = 1, order_opt = 0, printed = [Some 0]\<rparr>"

definition example_state_2 :: "nat train_state" where
  "example_state_2 =
     \<lparr>weights = [0], weights_grad = Some [2],
      order_param_input = Tensor 3 [[-1, -1, -1], [-1, -1, -1], [-1, -1, -1], [-1, -1, -1]],
      order_param_grad = Some (Tensor 3 [[1, 1, 1], [1, 1, 1], [1, 1, 1], [1, 1, 1]]),
      opt = 1, order_opt = 1, printed = [Some 0, Some 0]\<rparr>"

text \<open>Names for the proofs: the row of an atom type, and the matrix that the tail of
  \<open>create_features\<close> builds when nothing raises.\<close>

definition one_hot :: "nat \<Rightarrow> real list" where
  "one_hot i = hd (rows (atom_inputs ! i))"

definition stitched :: "irrep list \<Rightarrow> nat list \<Rightarrow> tensor \<Rightarrow> tensor" where
  "stitched Rs js x = Tensor (3 + rs_dim Rs)
      (map2 (@) (map one_hot js) (replicate (length js - 4) (replicate (rs_dim Rs) 0) @ rows x))"



section \<open>Basic facts about the tensor operations\<close>

lemma length3_cases:
  assumes "length (r :: 'a list) = 3"
  obtains a b c where "r = [a, b, c]"
proof -
  from assms obtain a r1 where r: "r = a # r1" and l1: "length r1 = 2"
    by (cases r) auto
  from l1 obtain b r2 where r1: "r1 = b # r2" and l2: "length r2 = 1"
    by (cases r1) auto
  from l2 obtain c where "r2 = [c]"
    by (cases r2) auto
  with r r1 that show thesis by blast
qed

lemma bdim_same [simp]: "bdim n n = Some n"
  by (simp add: bdim_def)

lemma expand_same [simp]: "length xs = k \<Longrightarrow> expand k xs = xs"
  by (simp add: expand_def)

lemma wf_tensor_row: "wf_tensor t \<Longrightarrow> r \<in> set (rows t) \<Longrightarrow> length r = ncols t"
  by (simp add: wf_tensor_def list_all_iff)

lemma index_cols_3:
  assumes "ncols t = 3" and "a < 3" and "b < 3" and "c < 3"
  shows "index_cols t [a, b, c] = Inr (Tensor 3 (map (\<lambda>r. [r ! a, r ! b, r ! c]) (rows t)))"
  using assms by (simp add: index_cols_def)

lemma tsub_same_shape:
  assumes "nrows a = nrows b" and "ncols a = ncols b"
  shows "tsub a b = Inr (Tensor (ncols b)
           (map2 (\<lambda>r s. map2 (-) (expand (ncols b) r) (expand (ncols b) s)) (rows a) (rows b)))"
  using assms by (simp add: tsub_def nrows_def)

lemma tadd_same_shape:
  assumes "nrows a = nrows b" and "ncols a = ncols b"
  shows "tadd a b = Inr (Tensor (ncols b)
           (map2 (\<lambda>r s. map2 (+) (expand (ncols b) r) (expand (ncols b) s)) (rows a) (rows b)))"
  using assms by (simp add: tadd_def nrows_def)

lemma perm_rows_sum:
  assumes "length (os :: real list list) = length (ys :: real list list)"
    and "list_all (\<lambda>r. length r = 3) os"
    and "list_all (\<lambda>r. length r = 3) ys"
  shows "sum_list (map sum_list (map (map abs)
            (map2 (\<lambda>r s. map2 (-) (expand 3 r) (expand 3 s)) os
               (map (\<lambda>r. [r ! 1, r ! 2, r ! 0]) ys))))
       = sum_list (map sum_list (map (map abs)
            (map2 (\<lambda>r s. map2 (-) (expand 3 r) (expand 3 s))
               (map (\<lambda>r. [r ! 2, r ! 0, r ! 1]) os) ys)))"
  using assms
proof (induction os ys rule: list_induct2)
  case Nil
  then show ?case by simp
next
  case (Cons r os s ys)
  from Cons.prems obtain a b c where r: "r = [a, b, c]"
    by (auto elim: length3_cases)
  from Cons.prems obtain d e f where s: "s = [d, e, f]"
    by (auto elim: length3_cases)
  have "sum_list (map abs (map2 (-) (expand 3 r) (expand 3 [s ! 1, s ! 2, s ! 0])))
      = sum_list (map abs (map2 (-) (expand 3 [r ! 2, r ! 0, r ! 1]) (expand 3 s)))"
    by (simp add: r s)
  with Cons show ?case by simp
qed

lemma perm_rows_inverse:
  assumes "list_all (\<lambda>r. length r = 3) (ys :: real list list)"
  shows "map (\<lambda>r. [r ! 2, r ! 0, r ! 1]) (map (\<lambda>r. [r ! 1, r ! 2, r ! 0]) ys) = ys"
  using assms
proof (induction ys)
  case Nil
  then show ?case by simp
next
  case (Cons s ys)
  from Cons.prems obtain d e f where s: "s = [d, e, f]"
    by (auto elim: length3_cases)
  with Cons show ?case by simp
qed

lemma perm_rows_inverse':
  assumes "list_all (\<lambda>r. length r = 3) (ys :: real list list)"
  shows "map (\<lambda>r. [r ! 1, r ! 2, r ! 0]) (map (\<lambda>r. [r ! 2, r ! 0, r ! 1]) ys) = ys"
  using assms
proof (induction ys)
  case Nil
  then show ?case by simp
next
  case (Cons s ys)
  from Cons.prems obtain d e f where s: "s = [d, e, f]"
    by (auto elim: length3_cases)
  with Cons show ?case by simp
qed

lemma ulp_binade:
  assumes "2 ^ k \<le> \<bar>x\<bar>" and "\<bar>x\<bar> < 2 ^ (k + 1)"
  shows "ulp x = 2 ^ k / 2 ^ 52"
proof -
  have p: "0 < \<bar>x\<bar>"
    using assms(1) by (smt (verit) zero_less_power)
  have a: "2 powr real_of_int (int k) \<le> \<bar>x\<bar>"
    using assms(1) by (simp add: powr_realpow)
  have b: "\<bar>x\<bar> < 2 powr real_of_int (int k + 1)"
    using assms(2) powr_realpow [of "2::real" "k + 1"] by (simp add: add.commute)
  have "\<lfloor>log 2 \<bar>x\<bar>\<rfloor> = int k"
    using floor_log_eq_powr_iff [OF p, of 2 "int k"] a b by simp
  then have "ulp x = 2 powr (real k - 52)"
    by (simp add: ulp_def)
  also have "\<dots> = 2 ^ k / 2 ^ 52"
    by (simp add: powr_diff powr_realpow flip: powr_numeral)
  finally show ?thesis .
qed

lemma round_f64_binade:
  assumes "2 ^ k \<le> \<bar>x\<bar>" and "\<bar>x\<bar> < 2 ^ (k + 1)"
  shows "round_f64 x = of_int (round_half_even (x * 2 ^ 52 / 2 ^ k)) * (2 ^ k / 2 ^ 52)"
proof -
  have "x \<noteq> 0" using assms(1) by (smt (verit) zero_less_power abs_zero)
  then show ?thesis
    by (simp add: round_f64_def ulp_binade [OF assms])
qed

lemma round_f64_1: "round_f64 1 = 1"
  using round_f64_binade [of 0 1] by (simp add: round_half_even_def)

lemma round_f64_2: "round_f64 2 = 2"
  using round_f64_binade [of 1 2] by (simp add: round_half_even_def)

lemma round_f64_1e16: "round_f64 10000000000000000 = 10000000000000000"
  using round_f64_binade [of 53 10000000000000000] by (simp add: round_half_even_def)

lemma round_f64_1e16_plus_1: "round_f64 10000000000000001 = 10000000000000000"
  using round_f64_binade [of 53 10000000000000001] by (simp add: round_half_even_def)

lemma round_f64_1e16_plus_2: "round_f64 10000000000000002 = 10000000000000002"
  using round_f64_binade [of 53 10000000000000002] by (simp add: round_half_even_def)

lemma round_f64_third_a: "round_f64 3333333333333334 = 3333333333333334"
  using round_f64_binade [of 51 3333333333333334] by (simp add: round_half_even_def)

lemma round_f64_third_b: "round_f64 (10000000000000000 / 3) = 6666666666666667 / 2"
  using round_f64_binade [of 51 "10000000000000000 / 3"] by (simp add: round_half_even_def)


lemma perm_rows_errors:
  assumes "length (os :: real list list) = length (ys :: real list list)"
    and "list_all (\<lambda>r. length r = 3) os"
    and "list_all (\<lambda>r. length r = 3) ys"
  shows "map (\<lambda>r. [r ! 2, r ! 0, r ! 1]) (map (map abs) (map (map round_f64)
            (map2 (\<lambda>r s. map2 (-) (expand 3 r) (expand 3 s)) os
               (map (\<lambda>r. [r ! 1, r ! 2, r ! 0]) ys))))
       = map (map abs) (map (map round_f64)
            (map2 (\<lambda>r s. map2 (-) (expand 3 r) (expand 3 s))
               (map (\<lambda>r. [r ! 2, r ! 0, r ! 1]) os) ys))"
  using assms
proof (induction os ys rule: list_induct2)
  case Nil
  then show ?case by simp
next
  case (Cons r os s ys)
  from Cons.prems obtain a b c where r: "r = [a, b, c]"
    by (auto elim: length3_cases)
  from Cons.prems obtain d e f where s: "s = [d, e, f]"
    by (auto elim: length3_cases)
  from Cons show ?case by (simp add: r s)
qed

lemma tsub_f64_same_shape:
  assumes "nrows a = nrows b" and "ncols a = ncols b"
  shows "tsub_f64 a b = Inr (Tensor (ncols b) (map (map round_f64)
           (map2 (\<lambda>r s. map2 (-) (expand (ncols b) r) (expand (ncols b) s)) (rows a) (rows b))))"
  using assms by (simp add: tsub_f64_def tsub_same_shape)

lemma example_loss_f64:
  "recon_loss_f64 (Tensor 3 [[1, 1, 10000000000000000]]) (Tensor 3 [[0, 0, 0]])
     = Inr (Some 3333333333333334)"
  by (simp add: recon_loss_f64_def index_cols_3 tsub_f64_same_shape nrows_def tabs_def
      tmean_f64_def tsum_f64_def numel_def round_f64_1 round_f64_2 round_f64_1e16 round_f64_1e16_plus_2 round_f64_third_a)

lemma example_loss_target_order_f64:
  "recon_loss_target_order_f64 (Tensor 3 [[1, 1, 10000000000000000]]) (Tensor 3 [[0, 0, 0]])
     = Inr (Some (6666666666666667 / 2))"
  by (simp add: recon_loss_target_order_f64_def index_cols_3 tsub_f64_same_shape nrows_def tabs_def
      tmean_f64_def tsum_f64_def numel_def round_f64_1 round_f64_1e16 round_f64_1e16_plus_1 round_f64_third_b)

section \<open>The component-ordering convention\<close>

text \<open>
  Claim C9 as it is stated equates the two means for every prediction and target. The
  notebooks compute in float64, where the two means add the same terms in a different
  order and round differently: for the prediction \<open>[[1, 1, 1e16]]\<close> and a zero target the
  loss of the code is \<open>3333333333333334.0\<close> and the mean of the claim's other side is
  \<open>3333333333333333.5\<close>.
\<close>

theorem float64_means_differ_counterexample:
  "recon_loss_f64 (Tensor 3 [[1, 1, 10000000000000000]]) (Tensor 3 [[0, 0, 0]])
     = Inr (Some 3333333333333334)
   \<and> recon_loss_target_order_f64 (Tensor 3 [[1, 1, 10000000000000000]]) (Tensor 3 [[0, 0, 0]])
     = Inr (Some (6666666666666667 / 2))
   \<and> recon_loss_f64 (Tensor 3 [[1, 1, 10000000000000000]]) (Tensor 3 [[0, 0, 0]])
     \<noteq> recon_loss_target_order_f64 (Tensor 3 [[1, 1, 10000000000000000]]) (Tensor 3 [[0, 0, 0]])"
  by (simp add: example_loss_f64 example_loss_target_order_f64)

text \<open>
  Claim C9, amended. The permutation \<open>[1, 2, 0]\<close> applied to the targets inside the
  training loss and the permutation \<open>[2, 0, 1]\<close> applied to the predictions in the
  reconstruction step are mutually inverse (each undoes the other), so they encode one
  convention: for every prediction \<open>o\<close> and target \<open>y\<close> of shape \<open>(N, 3)\<close>, the absolute
  errors \<open>|o[:, [2, 0, 1]] - y|\<close> are, entry for entry and in float64, the absolute
  errors \<open>|o - y[:, [1, 2, 0]]|\<close> with their columns reordered by \<open>[2, 0, 1]\<close>. The two
  means therefore add the same terms; in exact arithmetic they are equal (and a number
  when \<open>N > 0\<close>).
\<close>

theorem permutations_inverse_and_errors_reordered:
  assumes "wf_tensor out" and "wf_tensor y"
    and "shape out = [n, 3]" and "shape y = [n, 3]"
  shows "(\<exists>yp. index_cols y [1, 2, 0] = Inr yp \<and> index_cols yp [2, 0, 1] = Inr y)
       \<and> (\<exists>op. index_cols out [2, 0, 1] = Inr op \<and> index_cols op [1, 2, 0] = Inr out)
       \<and> (\<exists>yp op d1 d2. index_cols y [1, 2, 0] = Inr yp \<and> index_cols out [2, 0, 1] = Inr op
              \<and> tsub_f64 out yp = Inr d1 \<and> tsub_f64 op y = Inr d2
              \<and> index_cols (tabs d1) [2, 0, 1] = Inr (tabs d2))
       \<and> recon_loss out y = recon_loss_target_order out y
       \<and> (0 < n \<longrightarrow> (\<exists>v. recon_loss out y = Inr (Some v)))"
proof -
  from assms have co: "ncols out = 3" and cy: "ncols y = 3"
    and ro: "nrows out = n" and ry: "nrows y = n"
    by (simp_all add: shape_def)
  from assms co cy have lo: "list_all (\<lambda>r. length r = 3) (rows out)"
    and ly: "list_all (\<lambda>r. length r = 3) (rows y)"
    by (simp_all add: wf_tensor_def)
  define yp where "yp = Tensor 3 (map (\<lambda>r. [r ! 1, r ! 2, r ! 0]) (rows y))"
  define op where "op = Tensor 3 (map (\<lambda>r. [r ! 2, r ! 0, r ! 1]) (rows out))"
  have iy: "index_cols y [1, 2, 0] = Inr yp"
    unfolding yp_def using index_cols_3 [OF cy, of 1 2 0] by simp
  have io: "index_cols out [2, 0, 1] = Inr op"
    unfolding op_def using index_cols_3 [OF co, of 2 0 1] by simp
  have "index_cols yp [2, 0, 1] = Inr (Tensor 3 (rows y))"
    using index_cols_3 [of yp 2 0 1] perm_rows_inverse [OF ly] by (simp add: yp_def)
  moreover have "Tensor 3 (rows y) = y"
    using cy by (cases y) simp
  ultimately have inv: "\<exists>yp. index_cols y [1, 2, 0] = Inr yp \<and> index_cols yp [2, 0, 1] = Inr y"
    using iy by simp
  have "index_cols op [1, 2, 0] = Inr (Tensor 3 (rows out))"
    using index_cols_3 [of op 1 2 0] perm_rows_inverse' [OF lo] by (simp add: op_def)
  moreover have "Tensor 3 (rows out) = out"
    using co by (cases out) simp
  ultimately have inv': "\<exists>op. index_cols out [2, 0, 1] = Inr op \<and> index_cols op [1, 2, 0] = Inr out"
    using io by simp
  have len: "length (rows out) = length (rows y)"
    using ro ry by (simp add: nrows_def)
  define e1 where "e1 = Tensor 3 (map (map round_f64)
      (map2 (\<lambda>r s. map2 (-) (expand 3 r) (expand 3 s)) (rows out) (rows yp)))"
  define e2 where "e2 = Tensor 3 (map (map round_f64)
      (map2 (\<lambda>r s. map2 (-) (expand 3 r) (expand 3 s)) (rows op) (rows y)))"
  have f1: "tsub_f64 out yp = Inr e1"
    using tsub_f64_same_shape [of out yp] co ro ry by (simp add: e1_def yp_def nrows_def)
  have f2: "tsub_f64 op y = Inr e2"
    using tsub_f64_same_shape [of op y] cy ro ry by (simp add: e2_def op_def nrows_def)
  have "index_cols (tabs e1) [2, 0, 1] = Inr (tabs e2)"
    using index_cols_3 [of "tabs e1" 2 0 1] perm_rows_errors [OF len lo ly]
    by (simp add: tabs_def e1_def e2_def yp_def op_def)
  with iy io f1 f2 have same: "\<exists>yp op d1 d2. index_cols y [1, 2, 0] = Inr yp
              \<and> index_cols out [2, 0, 1] = Inr op
              \<and> tsub_f64 out yp = Inr d1 \<and> tsub_f64 op y = Inr d2
              \<and> index_cols (tabs d1) [2, 0, 1] = Inr (tabs d2)"
    by blast
  define d1 where "d1 = Tensor 3 (map2 (\<lambda>r s. map2 (-) (expand 3 r) (expand 3 s)) (rows out) (rows yp))"
  define d2 where "d2 = Tensor 3 (map2 (\<lambda>r s. map2 (-) (expand 3 r) (expand 3 s)) (rows op) (rows y))"
  have s1: "tsub out yp = Inr d1"
    using tsub_same_shape [of out yp] co ro ry by (simp add: d1_def yp_def nrows_def)
  have s2: "tsub op y = Inr d2"
    using tsub_same_shape [of op y] cy ro ry by (simp add: d2_def op_def nrows_def)
  have n1: "numel (tabs d1) = n * 3" and n2: "numel (tabs d2) = n * 3"
    using ro ry by (simp_all add: numel_def nrows_def tabs_def d1_def d2_def yp_def op_def)
  have "tsum (tabs d1) = tsum (tabs d2)"
    using perm_rows_sum [OF len lo ly]
    by (simp add: tsum_def tabs_def d1_def d2_def yp_def op_def)
  with n1 n2 have m: "tmean (tabs d1) = tmean (tabs d2)"
    and m': "0 < n \<Longrightarrow> tmean (tabs d1) = Some (tsum (tabs d1) / real (n * 3))"
    by (simp_all add: tmean_def)
  from iy io s1 s2 m have eq: "recon_loss out y = recon_loss_target_order out y"
    by (simp add: recon_loss_def recon_loss_target_order_def)
  from iy s1 m' have "0 < n \<longrightarrow> (\<exists>v. recon_loss out y = Inr (Some v))"
    by (simp add: recon_loss_def)
  with inv inv' same eq show ?thesis by blast
qed

theorem permutations_inverse_and_errors_reordered_witness:
  "wf_tensor (Tensor 3 [[1, 2, 3], [0, 0, 0]]) \<and> wf_tensor (Tensor 3 [[5, 7, 11], [1, 0, -1]])
   \<and> shape (Tensor 3 [[1, 2, 3], [0, 0, 0]]) = [2, 3]
   \<and> shape (Tensor 3 [[5, 7, 11], [1, 0, -1]]) = [2, 3]
   \<and> (0::nat) < 2
   \<and> (\<exists>yp. index_cols (Tensor 3 [[5, 7, 11], [1, 0, -1]]) [1, 2, 0] = Inr yp
            \<and> index_cols yp [2, 0, 1] = Inr (Tensor 3 [[5, 7, 11], [1, 0, -1]]))
   \<and> (\<exists>op. index_cols (Tensor 3 [[1, 2, 3], [0, 0, 0]]) [2, 0, 1] = Inr op
            \<and> index_cols op [1, 2, 0] = Inr (Tensor 3 [[1, 2, 3], [0, 0, 0]]))
   \<and> (\<exists>yp op d1 d2. index_cols (Tensor 3 [[5, 7, 11], [1, 0, -1]]) [1, 2, 0] = Inr yp
          \<and> index_cols (Tensor 3 [[1, 2, 3], [0, 0, 0]]) [2, 0, 1] = Inr op
          \<and> tsub_f64 (Tensor 3 [[1, 2, 3], [0, 0, 0]]) yp = Inr d1
          \<and> tsub_f64 op (Tensor 3 [[5, 7, 11], [1, 0, -1]]) = Inr d2
          \<and> index_cols (tabs d1) [2, 0, 1] = Inr (tabs d2))
   \<and> recon_loss (Tensor 3 [[1, 2, 3], [0, 0, 0]]) (Tensor 3 [[5, 7, 11], [1, 0, -1]])
      = recon_loss_target_order (Tensor 3 [[1, 2, 3], [0, 0, 0]]) (Tensor 3 [[5, 7, 11], [1, 0, -1]])
   \<and> (\<exists>v. recon_loss (Tensor 3 [[1, 2, 3], [0, 0, 0]]) (Tensor 3 [[5, 7, 11], [1, 0, -1]]) = Inr (Some v))"
proof -
  have h1: "wf_tensor (Tensor 3 [[1, 2, 3], [0, 0, 0]])"
    and h2: "wf_tensor (Tensor 3 [[5, 7, 11], [1, 0, -1]])"
    by (simp_all add: wf_tensor_def)
  have h3: "shape (Tensor 3 [[1, 2, 3], [0, 0, 0]]) = [2, 3]"
    and h4: "shape (Tensor 3 [[5, 7, 11], [1, 0, -1]]) = [2, 3]"
    by (simp_all add: shape_def nrows_def)
  have h5: "(0::nat) < 2" by simp
  from permutations_inverse_and_errors_reordered [OF h1 h2 h3 h4] h1 h2 h3 h4 h5
  show ?thesis by blast
qed

lemma lookup_all_eq:
  "lookup_all xs js = (if list_all (\<lambda>i. i < length xs) js then Inr (map (\<lambda>i. xs ! i) js) else Inl IndexError)"
  by (induction js) auto

lemma cat_list_dim0_eq:
  assumes "ts \<noteq> []" and "list_all (\<lambda>t. ncols t = m) ts"
  shows "cat_list_dim0 ts = Inr (Tensor m (concat (map rows ts)))"
  using assms
proof (induction ts rule: cat_list_dim0.induct)
  case 1
  then show ?case by simp
next
  case (2 t)
  then show ?case by (cases t) simp
next
  case (3 t u ts)
  then show ?case by (simp add: cat_dim0_def)
qed

lemma atom_inputs_nth:
  "i < 3 \<Longrightarrow> ncols (atom_inputs ! i) = 3 \<and> rows (atom_inputs ! i) = [one_hot i] \<and> length (one_hot i) = 3"
  by (auto simp: atom_inputs_def one_hot_def less_Suc_eq numeral_3_eq_3)

lemma all_atom_types_eq:
  "all_atom_types js =
     (if \<not> list_all (\<lambda>i. i < 3) js then Inl IndexError
      else if js = [] then Inl RuntimeError
      else Inr (Tensor 3 (map one_hot js)))"
proof -
  have len: "length atom_inputs = 3" by (simp add: atom_inputs_def)
  show ?thesis
  proof (cases "list_all (\<lambda>i. i < 3) js")
    case False
    then show ?thesis by (simp add: all_atom_types_def lookup_all_eq len)
  next
    case True
    show ?thesis
    proof (cases "js = []")
      case True
      then show ?thesis by (simp add: all_atom_types_def)
    next
      case False
      have a: "list_all (\<lambda>t. ncols t = 3) (map (\<lambda>i. atom_inputs ! i) js)"
        using True atom_inputs_nth by (auto simp: list_all_iff)
      have b: "concat (map rows (map (\<lambda>i. atom_inputs ! i) js)) = map one_hot js"
        using True atom_inputs_nth by (induction js) auto
      from False True cat_list_dim0_eq [OF _ a] b show ?thesis
        by (simp add: all_atom_types_def lookup_all_eq len)
    qed
  qed
qed

lemma stitch_eq:
  "stitch Rs js x =
     (if length js < 4 then Inl RuntimeError
      else if ncols x \<noteq> rs_dim Rs then Inl RuntimeError
      else if \<not> list_all (\<lambda>i. i < 3) js then Inl IndexError
      else if nrows x \<noteq> 4 then Inl RuntimeError
      else Inr (stitched Rs js x))"
proof -
  have n: "nat (int (length js) - 4) = length js - 4" by arith
  show ?thesis
    by (auto simp: stitch_def zeros_block_def torch_zeros_def cat_dim0_def all_atom_types_eq
        cat_dim1_def nrows_def stitched_def n)
qed

lemma stitched_shape:
  assumes "4 \<le> length js" and "nrows x = 4"
  shows "shape (stitched Rs js x) = [length js, 3 + rs_dim Rs]"
  using assms by (simp add: stitched_def shape_def nrows_def)

lemma map2_append_nth:
  assumes "i < length xs" and "i < length ys"
  shows "map2 (@) xs ys ! i = xs ! i @ ys ! i"
  using assms by simp

lemma stitched_row_zero_block:
  assumes "i < length js - 4" and "list_all (\<lambda>i. i < 3) js"
  shows "drop 3 (rows (stitched Rs js x) ! i) = replicate (rs_dim Rs) 0"
proof -
  from assms have i: "i < length js" by simp
  with assms have "js ! i < 3" by (simp add: list_all_length)
  then have l: "length (one_hot (js ! i)) = 3" using atom_inputs_nth by simp
  have "rows (stitched Rs js x) ! i
      = map one_hot js ! i @ (replicate (length js - 4) (replicate (rs_dim Rs) 0) @ rows x) ! i"
    unfolding stitched_def tensor.sel
    by (rule map2_append_nth) (use assms i in simp_all)
  also have "\<dots> = one_hot (js ! i) @ replicate (rs_dim Rs) 0"
    using assms i by (simp add: nth_append)
  finally show ?thesis using l by simp
qed

lemma stitched_row_special:
  assumes "4 \<le> length js" and "nrows x = 4" and "r < 4" and "list_all (\<lambda>i. i < 3) js"
  shows "drop 3 (rows (stitched Rs js x) ! (length js - 4 + r)) = rows x ! r"
proof -
  define i where "i = length js - 4 + r"
  from assms have i: "i < length js" and i4: "\<not> i < length js - 4" and ir: "i - (length js - 4) = r"
    by (simp_all add: i_def)
  with assms have "js ! i < 3" by (simp add: list_all_length)
  then have l: "length (one_hot (js ! i)) = 3" using atom_inputs_nth by simp
  have "rows (stitched Rs js x) ! i
      = map one_hot js ! i @ (replicate (length js - 4) (replicate (rs_dim Rs) 0) @ rows x) ! i"
    unfolding stitched_def tensor.sel
    by (rule map2_append_nth) (use assms i in \<open>simp_all add: nrows_def\<close>)
  also have "\<dots> = one_hot (js ! i) @ rows x ! r"
    using i i4 ir by (simp add: nth_append)
  finally show ?thesis using l by (simp add: i_def)
qed

lemma wf_stitched:
  assumes "wf_tensor x" and "ncols x = rs_dim Rs" and "list_all (\<lambda>i. i < 3) js"
  shows "wf_tensor (stitched Rs js x)"
proof -
  have "length r = 3 + rs_dim Rs" if "r \<in> set (rows (stitched Rs js x))" for r
  proof -
    from that obtain a b where r: "r = a @ b"
      and ab: "(a, b) \<in> set (zip (map one_hot js)
                 (replicate (length js - 4) (replicate (rs_dim Rs) 0) @ rows x))"
      by (auto simp: stitched_def)
    from ab have a: "a \<in> set (map one_hot js)"
      by (rule set_zip_leftD)
    from ab have b: "b \<in> set (replicate (length js - 4) (replicate (rs_dim Rs) 0) @ rows x)"
      by (rule set_zip_rightD)
    from a assms(3) have "length a = 3"
      using atom_inputs_nth by (auto simp: list_all_iff)
    moreover from b assms(1,2) have "length b = rs_dim Rs"
      by (auto simp: wf_tensor_def list_all_iff)
    ultimately show ?thesis using r by simp
  qed
  then show ?thesis
    by (simp add: wf_tensor_def list_all_iff stitched_def)
qed

lemma stitch_zero_block:
  assumes "stitch Rs js x = Inr f" and "i < length js - 4"
  shows "drop 3 (rows f ! i) = replicate (rs_dim Rs) 0"
proof -
  from assms(1) have "list_all (\<lambda>i. i < 3) js" and "f = stitched Rs js x"
    by (auto simp: stitch_eq split: if_splits)
  with assms(2) show ?thesis by (simp add: stitched_row_zero_block)
qed

lemma stitch_not_assertion: "stitch Rs js x \<noteq> Inl AssertionError"
  by (simp add: stitch_eq)

lemma constrained_new_order_param:
  assumes "shape x = [2, 2]"
  shows "\<exists>p. select_col x 0 = Inr [rows x ! 0 ! 0, rows x ! 1 ! 0]
           \<and> select_col x 1 = Inr [rows x ! 0 ! 1, rows x ! 1 ! 1]
           \<and> stack3_last (repeat_1d 2 [rows x ! 0 ! 0, rows x ! 1 ! 0]) (replicate 4 0)
                 (repeat_1d 2 [rows x ! 0 ! 1, rows x ! 1 ! 1]) = Inr p
           \<and> shape p = [4, 3] \<and> wf_tensor p"
proof -
  from assms have n: "ncols x = 2" and l: "length (rows x) = 2"
    by (simp_all add: shape_def nrows_def)
  from l obtain a b where r: "rows x = [a, b]"
    by (auto simp: length_Suc_conv numeral_2_eq_2)
  show ?thesis
    using n r
    by (simp add: select_col_def repeat_1d_def stack3_last_def shape_def nrows_def wf_tensor_def
        numeral_2_eq_2 numeral_Bit0 )
qed

lemma kvec_contribution_shape:
  assumes "ncols kvecs = 3" and "nrows pseudo = nrows kvecs" and "ncols coords = 3"
  shows "\<exists>c. kvec_contribution kvecs pseudo coords = Inr c
            \<and> shape c = [nrows coords, ncols pseudo]"
  using assms index_cols_3 [of coords 1 2 0]
  by (simp add: kvec_contribution_def unsqueeze_mul_sum_def unsqueeze_mul_sum2_def tcos_def
      shape_def nrows_def)

lemma map2_map_left: "map2 f (map g xs) ys = map2 (\<lambda>x y. f (g x) y) xs ys"
  by (simp add: zip_map1 split_def)

lemma kvec_row_eq:
  assumes "list_all (\<lambda>r. length r = 3) ks" and "length pc = 3"
  shows "map2 (\<lambda>c prow. map ((*) c) prow)
           (map (\<lambda>d. cos (2 * pi / vol * d))
              (map (\<lambda>kv. sum_list (map2 (*) (expand 3 kv) (expand 3 pc))) ks)) ps
       = map2 (\<lambda>kv p. map ((*) (cos (2 * pi * dot kv pc))) p) ks ps"
proof -
  have "map (\<lambda>d. cos (2 * pi / vol * d))
          (map (\<lambda>kv. sum_list (map2 (*) (expand 3 kv) (expand 3 pc))) ks)
      = map (\<lambda>kv. cos (2 * pi * dot kv pc)) ks"
    using assms by (auto simp: list_all_iff dot_def vol_def)
  then show ?thesis
    by (simp only: map2_map_left)
qed

lemma kvec_contribution_eq:
  assumes "wf_tensor kvecs" and "ncols kvecs = 3" and "nrows pseudo = nrows kvecs"
    and "ncols pseudo = 3" and "ncols coords = 3"
  shows "kvec_contribution kvecs pseudo coords =
     Inr (Tensor 3 (map (\<lambda>c. fourier_synthesis kvecs pseudo [c ! 1, c ! 2, c ! 0]) (rows coords)))"
proof -
  have ks: "list_all (\<lambda>r. length r = 3) (rows kvecs)"
    using assms(1,2) by (simp add: wf_tensor_def)
  have l: "length (rows pseudo) = length (rows kvecs)"
    using assms(3) by (simp add: nrows_def)
  have "unsqueeze_mul_sum2
          (tcos (Tensor (nrows kvecs)
             (map (\<lambda>c. map (\<lambda>kv. sum_list (map2 (*) (expand 3 kv) (expand 3 c))) (rows kvecs))
                (map (\<lambda>r. [r ! 1, r ! 2, r ! 0]) (rows coords))))) pseudo
      = Inr (Tensor 3 (map (\<lambda>c. fourier_synthesis kvecs pseudo [c ! 1, c ! 2, c ! 0]) (rows coords)))"
    using assms(3,4) l kvec_row_eq [OF ks]
    by (simp add: unsqueeze_mul_sum2_def tcos_def nrows_def fourier_synthesis_def o_def)
  then show ?thesis
    using assms(2,5) index_cols_3 [of coords 1 2 0]
    by (simp add: kvec_contribution_def unsqueeze_mul_sum_def)
qed

lemma rs_dim_Rs_order_param [simp]: "rs_dim Rs_order_param = 18"
  by (simp add: rs_dim_def Rs_order_param_def)

lemma rs_dim_Rs_order_param_pseudovector [simp]: "rs_dim Rs_order_param_pseudovector = 3"
  by (simp add: rs_dim_def Rs_order_param_pseudovector_def)

lemma create_features_valid:
  assumes "4 \<le> length atom_indices" and "list_all (\<lambda>i. i < 3) atom_indices"
    and "wf_tensor x" and "shape x = [4, rs_dim Rs]"
  shows "\<exists>f. create_features Rs atom_indices x = Inr f \<and> wf_tensor f
            \<and> shape f = [length atom_indices, 3 + rs_dim Rs]"
proof -
  from assms(4) have "nrows x = 4" and "ncols x = rs_dim Rs"
    by (simp_all add: shape_def)
  with assms(1-3) show ?thesis
    by (simp add: create_features_def stitch_eq stitched_shape wf_stitched)
qed

lemma create_features_constrained_valid:
  assumes "4 \<le> length atom_indices" and "list_all (\<lambda>i. i < 3) atom_indices"
    and "shape x = [2, 2]"
  shows "\<exists>f. create_features_constrained Rs_order_param_pseudovector atom_indices x = Inr f
            \<and> wf_tensor f
            \<and> shape f = [length atom_indices, 3 + rs_dim Rs_order_param_pseudovector]"
proof -
  from constrained_new_order_param [OF assms(3)] obtain p where
    p: "select_col x 0 = Inr [rows x ! 0 ! 0, rows x ! 1 ! 0]"
       "select_col x 1 = Inr [rows x ! 0 ! 1, rows x ! 1 ! 1]"
       "stack3_last (repeat_1d 2 [rows x ! 0 ! 0, rows x ! 1 ! 0]) (replicate 4 0)
                 (repeat_1d 2 [rows x ! 0 ! 1, rows x ! 1 ! 1]) = Inr p"
       "shape p = [4, 3]" "wf_tensor p"
    by blast
  from p(4) have "nrows p = 4" and "ncols p = 3"
    by (simp_all add: shape_def)
  with assms(1,2) p show ?thesis
    by (simp add: create_features_constrained_def stitch_eq stitched_shape wf_stitched)
qed

section \<open>Shape of the composed features\<close>

text \<open>
  Claim C7. For every order-parameter tensor of the declared valid shape (\<open>(4, rs.dim(Rs))\<close>
  in the first notebook, \<open>(2, 2)\<close> in the constrained variant), whatever its
  values, \<open>create_features\<close> returns without error a matrix of shape
  \<open>(N_atoms, 3 + order_param_dim)\<close>. The structure has at least the four special
  sites and every atom is of one of the three types.
\<close>

theorem create_features_shape:
  assumes "4 \<le> length atom_indices" and "list_all (\<lambda>i. i < 3) atom_indices"
  shows "(wf_tensor x \<and> shape x = [4, rs_dim Rs] \<longrightarrow>
            (\<exists>f. create_features Rs atom_indices x = Inr f \<and> wf_tensor f
                \<and> shape f = [length atom_indices, 3 + rs_dim Rs]))
       \<and> (wf_tensor x' \<and> shape x' = [2, 2] \<longrightarrow>
            (\<exists>f. create_features_constrained Rs_order_param_pseudovector atom_indices x' = Inr f
                \<and> wf_tensor f
                \<and> shape f = [length atom_indices, 3 + rs_dim Rs_order_param_pseudovector]))"
  using create_features_valid [OF assms] create_features_constrained_valid [OF assms]
  by blast

theorem create_features_shape_witness:
  "4 \<le> length [0, 2, 1, 1, 1, 1 :: nat] \<and> list_all (\<lambda>i. i < 3) [0, 2, 1, 1, 1, 1 :: nat]
   \<and> wf_tensor (Tensor 18 (replicate 4 (replicate 18 0)))
   \<and> shape (Tensor 18 (replicate 4 (replicate 18 0))) = [4, rs_dim Rs_order_param]
   \<and> (\<exists>f. create_features Rs_order_param [0, 2, 1, 1, 1, 1] (Tensor 18 (replicate 4 (replicate 18 0))) = Inr f
          \<and> wf_tensor f \<and> shape f = [length [0, 2, 1, 1, 1, 1 :: nat], 3 + rs_dim Rs_order_param])
   \<and> wf_tensor (Tensor 2 [[1, 2], [3, 4]]) \<and> shape (Tensor 2 [[1, 2], [3, 4]]) = [2, 2]
   \<and> (\<exists>f. create_features_constrained Rs_order_param_pseudovector [0, 2, 1, 1, 1, 1]
            (Tensor 2 [[1, 2], [3, 4]]) = Inr f
          \<and> wf_tensor f
          \<and> shape f = [length [0, 2, 1, 1, 1, 1 :: nat], 3 + rs_dim Rs_order_param_pseudovector])"
proof -
  have h1: "4 \<le> length [0, 2, 1, 1, 1, 1 :: nat]"
    and h2: "list_all (\<lambda>i. i < 3) [0, 2, 1, 1, 1, 1 :: nat]"
    by simp_all
  have h3: "wf_tensor (Tensor 18 (replicate 4 (replicate 18 0)))"
    and h4: "shape (Tensor 18 (replicate 4 (replicate 18 0))) = [4, rs_dim Rs_order_param]"
    and h5: "wf_tensor (Tensor 2 [[1, 2], [3, 4]])"
    and h6: "shape (Tensor 2 [[1, 2], [3, 4]]) = [2, 2]"
    by (simp_all add: wf_tensor_def shape_def nrows_def list_all_iff)
  from create_features_shape [OF h1 h2, of "Tensor 18 (replicate 4 (replicate 18 0))"
      Rs_order_param "Tensor 2 [[1, 2], [3, 4]]"] h1 h2 h3 h4 h5 h6
  show ?thesis by blast
qed

section \<open>The order-parameter block of the non-special atoms\<close>

text \<open>
  Claim C8. In every variant of \<open>create_features\<close>, whenever features are returned,
  each non-special atom (every atom but the last four) has an all-zero order-parameter
  block (the columns after the three atom-type columns), for every value of the inputs.
\<close>

theorem non_special_atoms_zero_block:
  assumes "i < length atom_indices - 4"
  shows "(create_features Rs atom_indices x = Inr f \<longrightarrow>
            drop 3 (rows f ! i) = replicate (rs_dim Rs) 0)
       \<and> (create_features_constrained Rs atom_indices x' = Inr f' \<longrightarrow>
            drop 3 (rows f' ! i) = replicate (rs_dim Rs) 0)
       \<and> (create_features_kvec Rs atom_indices kvecs pseudo coords = Inr f'' \<longrightarrow>
            drop 3 (rows f'' ! i) = replicate (rs_dim Rs) 0)"
proof (intro conjI impI)
  assume "create_features Rs atom_indices x = Inr f"
  then show "drop 3 (rows f ! i) = replicate (rs_dim Rs) 0"
    using assms by (simp add: create_features_def stitch_zero_block)
next
  assume "create_features_constrained Rs atom_indices x' = Inr f'"
  then obtain p where "stitch Rs atom_indices p = Inr f'"
    by (auto simp: create_features_constrained_def split: sum.splits)
  then show "drop 3 (rows f' ! i) = replicate (rs_dim Rs) 0"
    using assms by (rule stitch_zero_block)
next
  assume "create_features_kvec Rs atom_indices kvecs pseudo coords = Inr f''"
  then obtain p where "stitch Rs atom_indices p = Inr f''"
    by (auto simp: create_features_kvec_def split: sum.splits if_splits)
  then show "drop 3 (rows f'' ! i) = replicate (rs_dim Rs) 0"
    using assms by (rule stitch_zero_block)
qed

lemma replicate_3: "replicate 3 x = [x, x, x]"
  by (simp add: numeral_3_eq_3)

lemma kvec_example:
  "kvec_contribution (Tensor 3 [[1/2, 1/2, 1/2], [1/2, 0, 1/2]]) (Tensor 3 [[0, 0, 0], [1, 0, 0]])
      (Tensor 3 [[0, 0, 0], [0, 0, 1], [1, 0, 0], [0, 1, 0]])
   = Inr (Tensor 3 [[1, 0, 0], [1, 0, 0], [-1, 0, 0], [-1, 0, 0]])"
proof -
  have "wf_tensor (Tensor 3 [[1/2, 1/2, 1/2], [1/2, 0, 1/2]])"
    by (simp add: wf_tensor_def)
  then show ?thesis
    by (simp add: kvec_contribution_eq nrows_def fourier_synthesis_def dot_def sum_rows_def replicate_3)
qed

lemma fourier_example:
  "map (fourier_synthesis (Tensor 3 [[1/2, 1/2, 1/2], [1/2, 0, 1/2]]) (Tensor 3 [[0, 0, 0], [1, 0, 0]]))
      [[0, 0, 0], [0, 0, 1], [1, 0, 0], [0, 1, 0]]
   = [[1, 0, 0], [-1, 0, 0], [-1, 0, 0], [1, 0, 0]]"
  by (simp add: fourier_synthesis_def dot_def sum_rows_def replicate_3)

lemma replicate_4: "replicate 4 x = [x, x, x, x]"
  by (simp add: eval_nat_numeral)

lemma repeat_1d_2: "repeat_1d 2 xs = xs @ xs"
  by (simp add: repeat_1d_def numeral_2_eq_2)

lemma one_hot_values:
  "one_hot 0 = [1, 0, 0]" "one_hot 1 = [0, 1, 0]" "one_hot (Suc 0) = [0, 1, 0]"
  "one_hot 2 = [0, 0, 1]"
  by (simp_all add: one_hot_def atom_inputs_def)

lemma stitched_example:
  "stitched Rs_order_param_pseudovector [t0, t1, t2, t3, t4, t5]
      (Tensor 3 [[a, b, c], [d, e, f], [g, h, i], [j, k, l]])
   = Tensor 6 [one_hot t0 @ [0, 0, 0], one_hot t1 @ [0, 0, 0], one_hot t2 @ [a, b, c],
               one_hot t3 @ [d, e, f], one_hot t4 @ [g, h, i], one_hot t5 @ [j, k, l]]"
  by (simp add: stitched_def replicate_3 numeral_2_eq_2)

lemma create_features_example:
  "create_features Rs_order_param_pseudovector [0, 2, 1, 1, 1, 1]
      (Tensor 3 [[1, 2, 3], [4, 5, 6], [7, 8, 9], [10, 11, 12]])
   = Inr (Tensor 6 [[1, 0, 0, 0, 0, 0], [0, 0, 1, 0, 0, 0], [0, 1, 0, 1, 2, 3], [0, 1, 0, 4, 5, 6],
               [0, 1, 0, 7, 8, 9], [0, 1, 0, 10, 11, 12]])"
  by (simp add: create_features_def stitch_eq nrows_def stitched_example one_hot_values)

lemma create_features_constrained_example:
  "create_features_constrained Rs_order_param_pseudovector [0, 2, 1, 1, 1, 1]
      (Tensor 2 [[1, 2], [3, 4]])
   = Inr (Tensor 6 [[1, 0, 0, 0, 0, 0], [0, 0, 1, 0, 0, 0], [0, 1, 0, 1, 0, 2], [0, 1, 0, 3, 0, 4],
               [0, 1, 0, 1, 0, 2], [0, 1, 0, 3, 0, 4]])"
  by (simp add: create_features_constrained_def select_col_def repeat_1d_2 replicate_4 stack3_last_def
      stitch_eq nrows_def stitched_example one_hot_values)

lemma create_features_kvec_example:
  "create_features_kvec Rs_order_param_pseudovector [0, 2, 1, 1, 1, 1]
      (Tensor 3 [[1/2, 1/2, 1/2], [1/2, 0, 1/2]]) (Tensor 3 [[0, 0, 0], [1, 0, 0]])
      (Tensor 3 [[0, 0, 0], [0, 0, 1], [1, 0, 0], [0, 1, 0]])
   = Inr (Tensor 6 [[1, 0, 0, 0, 0, 0], [0, 0, 1, 0, 0, 0], [0, 1, 0, 1, 0, 0], [0, 1, 0, 1, 0, 0],
               [0, 1, 0, -1, 0, 0], [0, 1, 0, -1, 0, 0]])"
  by (simp add: create_features_kvec_def kvec_example shape_def stitch_eq nrows_def stitched_example
      one_hot_values)

theorem non_special_atoms_zero_block_witness:
  "(1::nat) < length [0, 2, 1, 1, 1, 1 :: nat] - 4
   \<and> create_features Rs_order_param_pseudovector [0, 2, 1, 1, 1, 1]
        (Tensor 3 [[1, 2, 3], [4, 5, 6], [7, 8, 9], [10, 11, 12]])
      = Inr (Tensor 6 [[1, 0, 0, 0, 0, 0], [0, 0, 1, 0, 0, 0], [0, 1, 0, 1, 2, 3], [0, 1, 0, 4, 5, 6],
               [0, 1, 0, 7, 8, 9], [0, 1, 0, 10, 11, 12]])
   \<and> create_features_constrained Rs_order_param_pseudovector [0, 2, 1, 1, 1, 1]
        (Tensor 2 [[1, 2], [3, 4]])
      = Inr (Tensor 6 [[1, 0, 0, 0, 0, 0], [0, 0, 1, 0, 0, 0], [0, 1, 0, 1, 0, 2], [0, 1, 0, 3, 0, 4],
               [0, 1, 0, 1, 0, 2], [0, 1, 0, 3, 0, 4]])
   \<and> create_features_kvec Rs_order_param_pseudovector [0, 2, 1, 1, 1, 1]
        (Tensor 3 [[1/2, 1/2, 1/2], [1/2, 0, 1/2]]) (Tensor 3 [[0, 0, 0], [1, 0, 0]])
        (Tensor 3 [[0, 0, 0], [0, 0, 1], [1, 0, 0], [0, 1, 0]])
      = Inr (Tensor 6 [[1, 0, 0, 0, 0, 0], [0, 0, 1, 0, 0, 0], [0, 1, 0, 1, 0, 0], [0, 1, 0, 1, 0, 0],
               [0, 1, 0, -1, 0, 0], [0, 1, 0, -1, 0, 0]])
   \<and> drop 3 (rows (Tensor 6 [[1, 0, 0, 0, 0, 0], [0, 0, 1, 0, 0, 0], [0, 1, 0, 1, 2, 3],
               [0, 1, 0, 4, 5, 6], [0, 1, 0, 7, 8, 9], [0, 1, 0, 10, 11, 12]]) ! 1)
      = replicate (rs_dim Rs_order_param_pseudovector) 0
   \<and> drop 3 (rows (Tensor 6 [[1, 0, 0, 0, 0, 0], [0, 0, 1, 0, 0, 0], [0, 1, 0, 1, 0, 2],
               [0, 1, 0, 3, 0, 4], [0, 1, 0, 1, 0, 2], [0, 1, 0, 3, 0, 4]]) ! 1)
      = replicate (rs_dim Rs_order_param_pseudovector) 0
   \<and> drop 3 (rows (Tensor 6 [[1, 0, 0, 0, 0, 0], [0, 0, 1, 0, 0, 0], [0, 1, 0, 1, 0, 0],
               [0, 1, 0, 1, 0, 0], [0, 1, 0, -1, 0, 0], [0, 1, 0, -1, 0, 0]]) ! 1)
      = replicate (rs_dim Rs_order_param_pseudovector) 0"
proof -
  have h: "(1::nat) < length [0, 2, 1, 1, 1, 1 :: nat] - 4" by simp
  from non_special_atoms_zero_block [OF h, of Rs_order_param_pseudovector]
    create_features_example create_features_constrained_example create_features_kvec_example h
  show ?thesis by blast
qed

section \<open>The shape assertion of the k-vector variant\<close>

text \<open>
  Claim C10. In the k-vector variant, whenever \<open>kvecs\<close> and
  \<open>pseudo_order_param_input\<close> have shape \<open>(K, 3)\<close> and \<open>normalized_B_coords\<close> has
  shape \<open>(4, 3)\<close>, the synthesized contribution is computed without error, has shape
  \<open>[4, 3]\<close>, and the assertion passes: \<open>create_features\<close> goes on to its tail and
  never raises \<open>AssertionError\<close>.
\<close>

theorem kvec_shape_assertion_holds:
  assumes "shape kvecs = [K, 3]" and "shape pseudo = [K, 3]" and "shape coords = [4, 3]"
  shows "(\<exists>c. kvec_contribution kvecs pseudo coords = Inr c \<and> shape c = [4, 3]
            \<and> create_features_kvec Rs atom_indices kvecs pseudo coords = stitch Rs atom_indices c)
       \<and> create_features_kvec Rs atom_indices kvecs pseudo coords \<noteq> Inl AssertionError"
proof -
  from assms have "ncols kvecs = 3" and "nrows pseudo = nrows kvecs" and "ncols coords = 3"
    and "nrows coords = 4" and "ncols pseudo = 3"
    by (simp_all add: shape_def)
  with kvec_contribution_shape [of kvecs pseudo coords]
  obtain c where c: "kvec_contribution kvecs pseudo coords = Inr c" "shape c = [4, 3]"
    by auto
  then have "create_features_kvec Rs atom_indices kvecs pseudo coords = stitch Rs atom_indices c"
    by (simp add: create_features_kvec_def)
  with c stitch_not_assertion [of Rs atom_indices c] show ?thesis
    by auto
qed

theorem kvec_shape_assertion_holds_witness:
  "shape (Tensor 3 [[1/2, 1/2, 1/2], [1/2, 0, 1/2]]) = [2, 3]
   \<and> shape (Tensor 3 [[0, 0, 0], [1, 0, 0]]) = [2, 3]
   \<and> shape (Tensor 3 [[0, 0, 0], [0, 0, 1], [1, 0, 0], [0, 1, 0]]) = [4, 3]
   \<and> (\<exists>c. kvec_contribution (Tensor 3 [[1/2, 1/2, 1/2], [1/2, 0, 1/2]]) (Tensor 3 [[0, 0, 0], [1, 0, 0]])
              (Tensor 3 [[0, 0, 0], [0, 0, 1], [1, 0, 0], [0, 1, 0]]) = Inr c
          \<and> shape c = [4, 3]
          \<and> create_features_kvec Rs_order_param_pseudovector [0, 2, 1, 1, 1, 1]
              (Tensor 3 [[1/2, 1/2, 1/2], [1/2, 0, 1/2]]) (Tensor 3 [[0, 0, 0], [1, 0, 0]])
              (Tensor 3 [[0, 0, 0], [0, 0, 1], [1, 0, 0], [0, 1, 0]])
            = stitch Rs_order_param_pseudovector [0, 2, 1, 1, 1, 1] c)
   \<and> create_features_kvec Rs_order_param_pseudovector [0, 2, 1, 1, 1, 1]
        (Tensor 3 [[1/2, 1/2, 1/2], [1/2, 0, 1/2]]) (Tensor 3 [[0, 0, 0], [1, 0, 0]])
        (Tensor 3 [[0, 0, 0], [0, 0, 1], [1, 0, 0], [0, 1, 0]]) \<noteq> Inl AssertionError"
proof -
  have h1: "shape (Tensor 3 [[1/2, 1/2, 1/2], [1/2, 0, 1/2]]) = [2, 3]"
    and h2: "shape (Tensor 3 [[0, 0, 0], [1, 0, 0]]) = [2, 3]"
    and h3: "shape (Tensor 3 [[0, 0, 0], [0, 0, 1], [1, 0, 0], [0, 1, 0]]) = [4, 3]"
    by (simp_all add: shape_def nrows_def)
  from kvec_shape_assertion_holds [OF h1 h2 h3, of Rs_order_param_pseudovector "[0, 2, 1, 1, 1, 1]"]
    h1 h2 h3
  show ?thesis by blast
qed

section \<open>The k-vector synthesis\<close>

text \<open>
  Claim C2 as it is stated takes the dot product of each k-vector with the site's
  normalized coordinate as it is passed in. The code first permutes the components of
  the coordinate with \<open>[1, 2, 0]\<close> (the order of the L = 1 basis the k-vectors are
  written in). With the notebook's two k-vectors R and M1, at the site \<open>(0, 0, 1)\<close>
  the code's contribution is \<open>(1, 0, 0)\<close>, and the formula on the unpermuted
  coordinate gives \<open>(-1, 0, 0)\<close>.
\<close>

theorem kvec_unpermuted_synthesis_counterexample:
  "kvec_contribution (Tensor 3 [[1/2, 1/2, 1/2], [1/2, 0, 1/2]]) (Tensor 3 [[0, 0, 0], [1, 0, 0]])
      (Tensor 3 [[0, 0, 0], [0, 0, 1], [1, 0, 0], [0, 1, 0]])
     = Inr (Tensor 3 [[1, 0, 0], [1, 0, 0], [-1, 0, 0], [-1, 0, 0]])
   \<and> map (fourier_synthesis (Tensor 3 [[1/2, 1/2, 1/2], [1/2, 0, 1/2]]) (Tensor 3 [[0, 0, 0], [1, 0, 0]]))
        (rows (Tensor 3 [[0, 0, 0], [0, 0, 1], [1, 0, 0], [0, 1, 0]]))
     = [[1, 0, 0], [-1, 0, 0], [-1, 0, 0], [1, 0, 0]]
   \<and> kvec_contribution (Tensor 3 [[1/2, 1/2, 1/2], [1/2, 0, 1/2]]) (Tensor 3 [[0, 0, 0], [1, 0, 0]])
      (Tensor 3 [[0, 0, 0], [0, 0, 1], [1, 0, 0], [0, 1, 0]])
     \<noteq> Inr (Tensor 3 (map (fourier_synthesis (Tensor 3 [[1/2, 1/2, 1/2], [1/2, 0, 1/2]])
                               (Tensor 3 [[0, 0, 0], [1, 0, 0]]))
                          (rows (Tensor 3 [[0, 0, 0], [0, 0, 1], [1, 0, 0], [0, 1, 0]]))))"
  using kvec_example fourier_example by simp

text \<open>
  Claim C2, amended. For every pseudo-order-parameter tensor and k-vector array of shape
  \<open>(K, 3)\<close> and every coordinate array of shape \<open>(R, 3)\<close>: the contribution at each
  site is the sum over k of \<open>cos(2 pi (kvector_k . p)) * order_param[k]\<close>, where
  \<open>p\<close> is the site's coordinate with its components reordered by \<open>[1, 2, 0]\<close>; with
  four sites, these are the order-parameter blocks of the last four atoms of the
  features returned.
\<close>

theorem kvec_contribution_fourier_synthesis:
  assumes "wf_tensor kvecs" and "shape kvecs = [K, 3]" and "shape pseudo = [K, 3]"
    and "shape coords = [R, 3]"
  shows "kvec_contribution kvecs pseudo coords
           = Inr (Tensor 3 (map (\<lambda>c. fourier_synthesis kvecs pseudo [c ! 1, c ! 2, c ! 0]) (rows coords)))
       \<and> (R = 4 \<and> 4 \<le> length atom_indices \<and> list_all (\<lambda>i. i < 3) atom_indices \<longrightarrow>
            (\<exists>f. create_features_kvec Rs_order_param_pseudovector atom_indices kvecs pseudo coords = Inr f
               \<and> (\<forall>r<4. drop 3 (rows f ! (length atom_indices - 4 + r))
                     = fourier_synthesis kvecs pseudo
                         [rows coords ! r ! 1, rows coords ! r ! 2, rows coords ! r ! 0])))"
proof -
  define c where "c = Tensor 3 (map (\<lambda>c. fourier_synthesis kvecs pseudo [c ! 1, c ! 2, c ! 0]) (rows coords))"
  from assms have s: "ncols kvecs = 3" "nrows pseudo = nrows kvecs" "ncols pseudo = 3"
    "ncols coords = 3" "nrows coords = R"
    by (simp_all add: shape_def)
  have k: "kvec_contribution kvecs pseudo coords = Inr c"
    unfolding c_def using assms(1) s by (simp add: kvec_contribution_eq)
  have "\<exists>f. create_features_kvec Rs_order_param_pseudovector atom_indices kvecs pseudo coords = Inr f
          \<and> (\<forall>r<4. drop 3 (rows f ! (length atom_indices - 4 + r))
                = fourier_synthesis kvecs pseudo
                    [rows coords ! r ! 1, rows coords ! r ! 2, rows coords ! r ! 0])"
    if R: "R = 4" and n: "4 \<le> length atom_indices" and t: "list_all (\<lambda>i. i < 3) atom_indices"
  proof -
    have sc: "nrows c = 4" "ncols c = 3"
      using s R by (simp_all add: c_def nrows_def)
    then have "create_features_kvec Rs_order_param_pseudovector atom_indices kvecs pseudo coords
        = Inr (stitched Rs_order_param_pseudovector atom_indices c)"
      using k n t by (simp add: create_features_kvec_def shape_def stitch_eq)
    moreover have "drop 3 (rows (stitched Rs_order_param_pseudovector atom_indices c)
                      ! (length atom_indices - 4 + r))
        = fourier_synthesis kvecs pseudo
            [rows coords ! r ! 1, rows coords ! r ! 2, rows coords ! r ! 0]" if "r < 4" for r
    proof -
      have "rows c ! r = fourier_synthesis kvecs pseudo
            [rows coords ! r ! 1, rows coords ! r ! 2, rows coords ! r ! 0]"
        using that s R by (simp add: c_def nrows_def)
      with stitched_row_special [OF n sc(1) that t] show ?thesis by simp
    qed
    ultimately show ?thesis by blast
  qed
  with k show ?thesis unfolding c_def by blast
qed

theorem kvec_contribution_fourier_synthesis_witness:
  "wf_tensor (Tensor 3 [[1/2, 1/2, 1/2], [1/2, 0, 1/2]])
   \<and> shape (Tensor 3 [[1/2, 1/2, 1/2], [1/2, 0, 1/2]]) = [2, 3]
   \<and> shape (Tensor 3 [[0, 0, 0], [1, 0, 0]]) = [2, 3]
   \<and> shape (Tensor 3 [[0, 0, 0], [0, 0, 1], [1, 0, 0], [0, 1, 0]]) = [4, 3]
   \<and> 4 \<le> length [0, 2, 1, 1, 1, 1 :: nat] \<and> list_all (\<lambda>i. i < 3) [0, 2, 1, 1, 1, 1 :: nat]
   \<and> kvec_contribution (Tensor 3 [[1/2, 1/2, 1/2], [1/2, 0, 1/2]]) (Tensor 3 [[0, 0, 0], [1, 0, 0]])
        (Tensor 3 [[0, 0, 0], [0, 0, 1], [1, 0, 0], [0, 1, 0]])
      = Inr (Tensor 3 (map (\<lambda>c. fourier_synthesis (Tensor 3 [[1/2, 1/2, 1/2], [1/2, 0, 1/2]])
                               (Tensor 3 [[0, 0, 0], [1, 0, 0]]) [c ! 1, c ! 2, c ! 0])
                         (rows (Tensor 3 [[0, 0, 0], [0, 0, 1], [1, 0, 0], [0, 1, 0]]))))
   \<and> (\<exists>f. create_features_kvec Rs_order_param_pseudovector [0, 2, 1, 1, 1, 1]
             (Tensor 3 [[1/2, 1/2, 1/2], [1/2, 0, 1/2]]) (Tensor 3 [[0, 0, 0], [1, 0, 0]])
             (Tensor 3 [[0, 0, 0], [0, 0, 1], [1, 0, 0], [0, 1, 0]]) = Inr f
          \<and> (\<forall>r<4. drop 3 (rows f ! (length [0, 2, 1, 1, 1, 1 :: nat] - 4 + r))
                = fourier_synthesis (Tensor 3 [[1/2, 1/2, 1/2], [1/2, 0, 1/2]])
                    (Tensor 3 [[0, 0, 0], [1, 0, 0]])
                    [rows (Tensor 3 [[0, 0, 0], [0, 0, 1], [1, 0, 0], [0, 1, 0]]) ! r ! 1,
                     rows (Tensor 3 [[0, 0, 0], [0, 0, 1], [1, 0, 0], [0, 1, 0]]) ! r ! 2,
                     rows (Tensor 3 [[0, 0, 0], [0, 0, 1], [1, 0, 0], [0, 1, 0]]) ! r ! 0]))"
proof -
  have h1: "wf_tensor (Tensor 3 [[1/2, 1/2, 1/2], [1/2, 0, 1/2]])"
    by (simp add: wf_tensor_def)
  have h2: "shape (Tensor 3 [[1/2, 1/2, 1/2], [1/2, 0, 1/2]]) = [2, 3]"
    and h3: "shape (Tensor 3 [[0, 0, 0], [1, 0, 0]]) = [2, 3]"
    and h4: "shape (Tensor 3 [[0, 0, 0], [0, 0, 1], [1, 0, 0], [0, 1, 0]]) = [4, 3]"
    by (simp_all add: shape_def nrows_def)
  have h5: "4 \<le> length [0, 2, 1, 1, 1, 1 :: nat]"
    and h6: "list_all (\<lambda>i. i < 3) [0, 2, 1, 1, 1, 1 :: nat]"
    by simp_all
  from kvec_contribution_fourier_synthesis [OF h1 h2 h3 h4, of "[0, 2, 1, 1, 1, 1]"]
    h1 h2 h3 h4 h5 h6
  show ?thesis by blast
qed




























section \<open>Monotonicity and grading of the regularizer\<close>



lemma relative_vecs_loop_length:
  "relative_vecs_loop g sites = Inr rs \<Longrightarrow> length rs = length sites"
  by (induction sites arbitrary: rs) (auto split: sum.splits)

lemma relative_vecs_loop_nth:
  "relative_vecs_loop g sites = Inr rs \<Longrightarrow> i < length sites \<Longrightarrow> relative_vec g (sites ! i) = Inr (rs ! i)"
proof (induction sites arbitrary: rs i)
  case Nil
  then show ?case by simp
next
  case (Cons s sites)
  then show ?case by (cases i) (auto split: sum.splits)
qed

lemma nearest_site_Inl: "nearest_site g c = Inl e \<longleftrightarrow> g c 1 = [] \<and> e = IndexError"
proof -
  have "sort_key (\<lambda>x. fst (snd x)) (g c 1) = [] \<longleftrightarrow> g c 1 = []"
    using length_sort [of "\<lambda>x. fst (snd x)" "g c 1"] by (simp only: length_0_conv [symmetric])
  then show ?thesis
    by (auto simp: nearest_site_def Let_def split: list.splits)
qed

lemma nearest_site_Inr:
  assumes "nearest_site g c = Inr n"
  shows "n \<in> set (g c 1)"
    and "\<forall>m \<in> set (g c 1). fst (snd n) \<le> fst (snd m)"
    and "hd (filter (\<lambda>m. fst (snd m) = fst (snd n)) (g c 1)) = n"
proof -
  from assms obtain rest where s: "sort_key (\<lambda>x. fst (snd x)) (g c 1) = n # rest"
    by (auto simp: nearest_site_def Let_def split: list.splits)
  have "set (n # rest) = set (g c 1)"
    using set_sort [of "\<lambda>x. fst (snd x)" "g c 1"] s by simp
  then show n: "n \<in> set (g c 1)" by auto
  have "sorted (map (\<lambda>x. fst (snd x)) (n # rest))"
    using sorted_sort_key [of "\<lambda>x. fst (snd x)" "g c 1"] s by simp
  then have "\<forall>m \<in> set (n # rest). fst (snd n) \<le> fst (snd m)"
    by auto
  with \<open>set (n # rest) = set (g c 1)\<close> show "\<forall>m \<in> set (g c 1). fst (snd n) \<le> fst (snd m)"
    by blast
  have "filter (\<lambda>m. fst (snd m) = fst (snd n)) (g c 1)
      = filter (\<lambda>m. fst (snd m) = fst (snd n)) (sort_key (\<lambda>x. fst (snd x)) (g c 1))"
    by (rule sort_key_stable [symmetric])
  also have "\<dots> = n # filter (\<lambda>m. fst (snd m) = fst (snd n)) rest"
    unfolding s by simp
  finally show "hd (filter (\<lambda>m. fst (snd m) = fst (snd n)) (g c 1)) = n"
    by simp
qed

lemma relative_vec_Inl: "relative_vec g c = Inl e \<longleftrightarrow> g c 1 = [] \<and> e = IndexError"
  using nearest_site_Inl [of g c e] by (auto simp: relative_vec_def split: sum.splits)

lemma relative_vecs_loop_Inr:
  assumes "\<forall>c \<in> set sites. g c 1 \<noteq> []"
  shows "\<exists>rs. relative_vecs_loop g sites = Inr rs"
  using assms
proof (induction sites)
  case Nil
  then show ?case by simp
next
  case (Cons s sites)
  then have "\<exists>r. relative_vec g s = Inr r"
    using relative_vec_Inl [of g s] by (cases "relative_vec g s") auto
  with Cons show ?case by auto
qed

lemma relative_vecs_loop_Inl:
  assumes "i < length sites" and "g (sites ! i) 1 = []"
  shows "relative_vecs_loop g sites = Inl IndexError"
  using assms
proof (induction sites arbitrary: i)
  case Nil
  then show ?case by simp
next
  case (Cons s sites)
  show ?case
  proof (cases i)
    case 0
    with Cons.prems have "relative_vec g s = Inl IndexError"
      by (simp add: relative_vec_Inl)
    then show ?thesis by simp
  next
    case (Suc k)
    with Cons have "relative_vecs_loop g sites = Inl IndexError"
      by simp
    then show ?thesis
      using relative_vec_Inl [of g s] by (auto split: sum.splits)
  qed
qed

section \<open>Failure of the alignment\<close>

text \<open>
  Claim C6. If for some reference atom the search returns no site of the distorted
  structure within the radius of 1 Angstrom, the alignment step raises (an
  \<open>IndexError\<close>, from \<^verbatim>\<open>sorted_sites[0]\<close>) and returns no displacement array.
\<close>

theorem alignment_fails_without_neighbor:
  assumes "i < length struct_221" and "get_sites_in_sphere (struct_221 ! i) 1 = []"
  shows "relative_vecs_62 get_sites_in_sphere struct_221 = Inl IndexError"
  using relative_vecs_loop_Inl [of i struct_221 get_sites_in_sphere] assms
  by (simp add: relative_vecs_62_def)

theorem alignment_fails_without_neighbor_witness:
  "(1::nat) < length [(0, 0, 0), (2, 0, 0) :: vec3]
   \<and> search_origin ([(0, 0, 0), (2, 0, 0)] ! 1) 1 = []
   \<and> relative_vecs_62 search_origin [(0, 0, 0), (2, 0, 0)] = Inl IndexError"
proof -
  have h1: "(1::nat) < length [(0, 0, 0), (2, 0, 0) :: vec3]" by simp
  have h2: "search_origin ([(0, 0, 0), (2, 0, 0)] ! 1) 1 = []"
    by (simp add: search_origin_def)
  from alignment_fails_without_neighbor [of 1 "[(0, 0, 0), (2, 0, 0)]" search_origin] h1 h2
  show ?thesis by blast
qed

section \<open>What the alignment computes\<close>

text \<open>
  Claim C4 as it is stated has the displacement go to the nearest image of the
  corresponding atom of the distorted structure, with ties broken by the site index.
  The loop never looks at the index of a site it gets back: it sorts what the search
  returns by distance alone and takes the first. For reference atom 0, a search that
  returns only a site of index 1 yields the displacement to that site; and of two sites
  at the same distance, of indices 3 and 2 in this order, the first returned is taken.
\<close>

theorem alignment_ignores_site_index_counterexample:
  "nearest_site search_one (0, 0, 0) = Inr ((0, 0, 1 / 2), 1 / 2, 1, (0, 0, 0))
   \<and> relative_vecs_62 search_one [(0, 0, 0)] = Inr [(0, 0, 1 / 2)]
   \<and> nearest_site search_tie (0, 0, 0) = Inr ((0, 0, 1 / 2), 1 / 2, 3, (0, 0, 0))"
  by (simp add: nearest_site_def relative_vecs_62_def relative_vec_def search_one_def
      search_tie_def vec_sub_def)

lemma contract_norm:
  assumes "sphere_search_contract inside g sites" and "c \<in> set sites" and "n \<in> set (g c 1)"
  shows "inside (vec_norm (vec_sub (fst n) c)) 1"
proof -
  from assms have "fst (snd n) = vec_norm (vec_sub (fst n) c)" and "inside (fst (snd n)) 1"
    unfolding sphere_search_contract_def list_all_iff by blast+
  then show ?thesis by metis
qed

lemma relative_vecs_62_Inr:
  assumes "struct_221 \<noteq> []" and "list_all (\<lambda>c. g c 1 \<noteq> []) struct_221"
  shows "\<exists>vs. relative_vecs_62 g struct_221 = Inr vs \<and> relative_vecs_loop g struct_221 = Inr vs"
proof -
  from assms(2) obtain rs where rs: "relative_vecs_loop g struct_221 = Inr rs"
    using relative_vecs_loop_Inr [of struct_221 g] by (auto simp: list_all_iff)
  with assms(1) have "rs \<noteq> []"
    using relative_vecs_loop_length [OF rs] by auto
  with rs show ?thesis
    by (simp add: relative_vecs_62_def)
qed

text \<open>
  Claim C4, amended. When the search finds a site for every reference atom, the
  alignment returns one displacement for each reference atom: the vector from the
  reference atom to the site that the search with radius 1 Angstrom returned with the
  smallest distance, whatever the index of that site, and among sites at that distance
  the one the search returned first (the sort is stable and its key is the distance
  alone). Consequently, when the search reports for every site its distance from the
  centre and returns only sites within the radius, the magnitude of every displacement
  is within the radius: less than it when the search leaves out the sites at exactly
  the radius, at most it when the search takes them in.
\<close>

theorem relative_vecs_nearest_returned_site:
  assumes "struct_221 \<noteq> []"
    and "list_all (\<lambda>c. get_sites_in_sphere c 1 \<noteq> []) struct_221"
  shows "\<exists>vs. relative_vecs_62 get_sites_in_sphere struct_221 = Inr vs
           \<and> length vs = length struct_221
           \<and> (\<forall>i<length struct_221. \<exists>n.
                 nearest_site get_sites_in_sphere (struct_221 ! i) = Inr n
               \<and> vs ! i = vec_sub (fst n) (struct_221 ! i)
               \<and> n \<in> set (get_sites_in_sphere (struct_221 ! i) 1)
               \<and> (\<forall>m \<in> set (get_sites_in_sphere (struct_221 ! i) 1). fst (snd n) \<le> fst (snd m))
               \<and> hd (filter (\<lambda>m. fst (snd m) = fst (snd n)) (get_sites_in_sphere (struct_221 ! i) 1)) = n
               \<and> (sphere_search_contract (<) get_sites_in_sphere struct_221 \<longrightarrow> vec_norm (vs ! i) < 1)
               \<and> (sphere_search_contract (\<le>) get_sites_in_sphere struct_221 \<longrightarrow> vec_norm (vs ! i) \<le> 1))"
proof -
  from relative_vecs_62_Inr [of struct_221 get_sites_in_sphere] assms obtain vs
    where vs: "relative_vecs_62 get_sites_in_sphere struct_221 = Inr vs"
      and lp: "relative_vecs_loop get_sites_in_sphere struct_221 = Inr vs"
    by blast
  have len: "length vs = length struct_221"
    using lp by (rule relative_vecs_loop_length)
  have "\<exists>n. nearest_site get_sites_in_sphere (struct_221 ! i) = Inr n
          \<and> vs ! i = vec_sub (fst n) (struct_221 ! i)
          \<and> n \<in> set (get_sites_in_sphere (struct_221 ! i) 1)
          \<and> (\<forall>m \<in> set (get_sites_in_sphere (struct_221 ! i) 1). fst (snd n) \<le> fst (snd m))
          \<and> hd (filter (\<lambda>m. fst (snd m) = fst (snd n)) (get_sites_in_sphere (struct_221 ! i) 1)) = n
          \<and> (sphere_search_contract (<) get_sites_in_sphere struct_221 \<longrightarrow> vec_norm (vs ! i) < 1)
          \<and> (sphere_search_contract (\<le>) get_sites_in_sphere struct_221 \<longrightarrow> vec_norm (vs ! i) \<le> 1)"
    if i: "i < length struct_221" for i
  proof -
    have "relative_vec get_sites_in_sphere (struct_221 ! i) = Inr (vs ! i)"
      using lp i by (rule relative_vecs_loop_nth)
    then obtain n where n: "nearest_site get_sites_in_sphere (struct_221 ! i) = Inr n"
      and v: "vs ! i = vec_sub (fst n) (struct_221 ! i)"
      by (auto simp: relative_vec_def split: sum.splits)
    note p = nearest_site_Inr [OF n]
    have "inside (vec_norm (vs ! i)) 1"
      if "sphere_search_contract inside get_sites_in_sphere struct_221" for inside
      using contract_norm [of inside get_sites_in_sphere struct_221 "struct_221 ! i" n] that i p(1) v
      by simp
    with n v p show ?thesis by blast
  qed
  with vs len show ?thesis by blast
qed

lemma sqrt_quarter: "sqrt (1 / 4) = 1 / 2"
  by (simp add: real_sqrt_divide)

theorem relative_vecs_nearest_returned_site_witness:
  "[(0, 0, 0), (2, 0, 0) :: vec3] \<noteq> []
   \<and> list_all (\<lambda>c. search_tie c 1 \<noteq> []) [(0, 0, 0), (2, 0, 0)]
   \<and> sphere_search_contract (<) search_tie [(0, 0, 0), (2, 0, 0)]
   \<and> sphere_search_contract (\<le>) search_tie [(0, 0, 0), (2, 0, 0)]
   \<and> (\<exists>vs. relative_vecs_62 search_tie [(0, 0, 0), (2, 0, 0)] = Inr vs
          \<and> length vs = length [(0, 0, 0), (2, 0, 0) :: vec3]
          \<and> (\<forall>i<length [(0, 0, 0), (2, 0, 0) :: vec3]. \<exists>n.
                nearest_site search_tie ([(0, 0, 0), (2, 0, 0)] ! i) = Inr n
              \<and> vs ! i = vec_sub (fst n) ([(0, 0, 0), (2, 0, 0)] ! i)
              \<and> n \<in> set (search_tie ([(0, 0, 0), (2, 0, 0)] ! i) 1)
              \<and> (\<forall>m \<in> set (search_tie ([(0, 0, 0), (2, 0, 0)] ! i) 1). fst (snd n) \<le> fst (snd m))
              \<and> hd (filter (\<lambda>m. fst (snd m) = fst (snd n)) (search_tie ([(0, 0, 0), (2, 0, 0)] ! i) 1)) = n
              \<and> vec_norm (vs ! i) < 1 \<and> vec_norm (vs ! i) \<le> 1))"
proof -
  have h1: "[(0, 0, 0), (2, 0, 0) :: vec3] \<noteq> []" by simp
  have h2: "list_all (\<lambda>c. search_tie c 1 \<noteq> []) [(0, 0, 0), (2, 0, 0)]"
    by (simp add: search_tie_def)
  have h3: "sphere_search_contract (<) search_tie [(0, 0, 0), (2, 0, 0)]"
    and h4: "sphere_search_contract (\<le>) search_tie [(0, 0, 0), (2, 0, 0)]"
    by (simp_all add: sphere_search_contract_def search_tie_def vec_norm_def vec_sub_def
        power2_eq_square sqrt_quarter)
  from relative_vecs_nearest_returned_site [of "[(0, 0, 0), (2, 0, 0)]" search_tie] h1 h2 h3 h4
  show ?thesis by blast
qed

section \<open>Reconstruction\<close>

text \<open>
  Claim C5. In the reconstruction step the Cartesian coordinates of the new structure
  are, atom for atom, those of the reference structure plus the predicted displacement
  with its components taken in the order \<open>[2, 0, 1]\<close>; the lattice is the new lattice
  and the species are the reference's; the space-group number reported is what the
  external detector returns on this structure.
\<close>

theorem reconstruction_adds_permuted_prediction:
  assumes "wf_tensor (cart_coords struct_221)" and "shape (cart_coords struct_221) = [N, 3]"
    and "wf_tensor output" and "shape output = [N, 3]"
    and "length (species struct_221) = N"
  shows "\<exists>s. new_struct new_lattice struct_221 output = Inr s
           \<and> lattice s = new_lattice \<and> species s = species struct_221
           \<and> shape (cart_coords s) = [N, 3]
           \<and> (\<forall>i<N. rows (cart_coords s) ! i =
                 [rows (cart_coords struct_221) ! i ! 0 + rows output ! i ! 2,
                  rows (cart_coords struct_221) ! i ! 1 + rows output ! i ! 0,
                  rows (cart_coords struct_221) ! i ! 2 + rows output ! i ! 1])
           \<and> get_space_group_number SpacegroupAnalyzer new_lattice struct_221 output
               = Inr (SpacegroupAnalyzer s)"
proof -
  define C where "C = cart_coords struct_221"
  define P where "P = Tensor 3 (map (\<lambda>r. [r ! 2, r ! 0, r ! 1]) (rows output))"
  define S where "S = Tensor 3 (map2 (\<lambda>r s. map2 (+) (expand 3 r) (expand 3 s)) (rows C) (rows P))"
  from assms have c: "ncols C = 3" "nrows C = N" and o: "ncols output = 3" "nrows output = N"
    by (simp_all add: shape_def C_def)
  have ip: "index_cols output [2, 0, 1] = Inr P"
    unfolding P_def using index_cols_3 [OF o(1), of 2 0 1] by simp
  have p: "ncols P = 3" "nrows P = N"
    using o by (simp_all add: P_def nrows_def)
  have ad: "tadd C P = Inr S"
    unfolding S_def using tadd_same_shape [of C P] c p by simp
  have sh: "shape S = [N, 3]"
    using c p by (simp add: S_def shape_def nrows_def)
  define s where "s = \<lparr>lattice = new_lattice, species = species struct_221, cart_coords = S\<rparr>"
  have ns: "new_struct new_lattice struct_221 output = Inr s"
    using ip ad sh assms(5)
    by (simp add: new_struct_def C_def [symmetric] Structure_def s_def shape_def)
  have "rows S ! i = [rows C ! i ! 0 + rows output ! i ! 2,
                      rows C ! i ! 1 + rows output ! i ! 0,
                      rows C ! i ! 2 + rows output ! i ! 1]" if i: "i < N" for i
  proof -
    have lc: "i < length (rows C)" and lo: "i < length (rows output)"
      using i c o by (simp_all add: nrows_def)
    have "length (rows C ! i) = 3"
      using wf_tensor_row [of C "rows C ! i"] assms(1) lc c by (simp add: C_def)
    then obtain a b d where r: "rows C ! i = [a, b, d]"
      by (rule length3_cases)
    show ?thesis
      using lc lo by (simp add: S_def P_def r)
  qed
  with ns sh show ?thesis
    by (auto simp: get_space_group_number_def s_def C_def)
qed

theorem reconstruction_adds_permuted_prediction_witness:
  "wf_tensor (cart_coords \<lparr>lattice = Tensor 3 [[4, 0, 0], [0, 4, 0], [0, 0, 8]],
        species = [''A'', ''B''], cart_coords = Tensor 3 [[0, 0, 0], [2, 2, 4]]\<rparr>)
   \<and> shape (cart_coords \<lparr>lattice = Tensor 3 [[4, 0, 0], [0, 4, 0], [0, 0, 8]],
        species = [''A'', ''B''], cart_coords = Tensor 3 [[0, 0, 0], [2, 2, 4]]\<rparr>) = [2, 3]
   \<and> wf_tensor (Tensor 3 [[1, 2, 3], [10, 20, 30]])
   \<and> shape (Tensor 3 [[1, 2, 3], [10, 20, 30]]) = [2, 3]
   \<and> length (species \<lparr>lattice = Tensor 3 [[4, 0, 0], [0, 4, 0], [0, 0, 8]],
        species = [''A'', ''B''], cart_coords = Tensor 3 [[0, 0, 0], [2, 2, 4]]\<rparr>) = 2
   \<and> (\<exists>s. new_struct (Tensor 3 [[4, 0, 0], [0, 4, 0], [0, 0, 8]])
            \<lparr>lattice = Tensor 3 [[4, 0, 0], [0, 4, 0], [0, 0, 8]],
              species = [''A'', ''B''], cart_coords = Tensor 3 [[0, 0, 0], [2, 2, 4]]\<rparr>
            (Tensor 3 [[1, 2, 3], [10, 20, 30]]) = Inr s
          \<and> rows (cart_coords s) = [[3, 1, 2], [32, 12, 24]]
          \<and> get_space_group_number (\<lambda>s. 62) (Tensor 3 [[4, 0, 0], [0, 4, 0], [0, 0, 8]])
            \<lparr>lattice = Tensor 3 [[4, 0, 0], [0, 4, 0], [0, 0, 8]],
              species = [''A'', ''B''], cart_coords = Tensor 3 [[0, 0, 0], [2, 2, 4]]\<rparr>
            (Tensor 3 [[1, 2, 3], [10, 20, 30]]) = Inr 62)"
proof -
  define r where "r = \<lparr>lattice = Tensor 3 [[4, 0, 0], [0, 4, 0], [0, 0, 8]],
        species = [''A'', ''B''], cart_coords = Tensor 3 [[0, 0, 0], [2, 2, 4]]\<rparr>"
  have h1: "wf_tensor (cart_coords r)" and h2: "shape (cart_coords r) = [2, 3]"
    and h3: "wf_tensor (Tensor 3 [[1, 2, 3], [10, 20, 30]])"
    and h4: "shape (Tensor 3 [[1, 2, 3], [10, 20, 30]]) = [2, 3]"
    and h5: "length (species r) = 2"
    by (simp_all add: r_def wf_tensor_def shape_def nrows_def)
  from reconstruction_adds_permuted_prediction [OF h1 h2 h3 h4 h5,
      of "Tensor 3 [[4, 0, 0], [0, 4, 0], [0, 0, 8]]" "\<lambda>s. 62"]
  obtain s where s: "new_struct (Tensor 3 [[4, 0, 0], [0, 4, 0], [0, 0, 8]]) r
        (Tensor 3 [[1, 2, 3], [10, 20, 30]]) = Inr s"
    and sh: "shape (cart_coords s) = [2, 3]"
    and rw: "\<forall>i<2. rows (cart_coords s) ! i =
                 [rows (cart_coords r) ! i ! 0 + rows (Tensor 3 [[1, 2, 3], [10, 20, 30]]) ! i ! 2,
                  rows (cart_coords r) ! i ! 1 + rows (Tensor 3 [[1, 2, 3], [10, 20, 30]]) ! i ! 0,
                  rows (cart_coords r) ! i ! 2 + rows (Tensor 3 [[1, 2, 3], [10, 20, 30]]) ! i ! 1]"
    and g: "get_space_group_number (\<lambda>s. 62) (Tensor 3 [[4, 0, 0], [0, 4, 0], [0, 0, 8]]) r
        (Tensor 3 [[1, 2, 3], [10, 20, 30]]) = Inr 62"
    by blast
  from sh have "length (rows (cart_coords s)) = 2"
    by (simp add: shape_def nrows_def)
  then obtain a b where ab: "rows (cart_coords s) = [a, b]"
    by (auto simp: length_Suc_conv numeral_2_eq_2)
  from rw have "rows (cart_coords s) ! 0 = [3, 1, 2]" and "rows (cart_coords s) ! 1 = [32, 12, 24]"
    by (simp_all add: r_def)
  with ab have "rows (cart_coords s) = [[3, 1, 2], [32, 12, 24]]"
    by simp
  with s g h1 h2 h3 h4 h5 show ?thesis
    unfolding r_def by blast
qed

lemma model_update_Inr:
  assumes "model_update ext i st = Inr st'"
  shows "order_param_input st' = order_param_input st"
    and "order_opt st' = order_opt st"
    and "(opt st', weights st') =
           adam_model ext (opt st) (weights st)
             (accumulate_list (zero_grad_list (weights_grad st))
                (fst (autograd_model_phase ext (weights st) (order_param_input st))))"
    and "weights_grad st' = Some (accumulate_list (zero_grad_list (weights_grad st))
                (fst (autograd_model_phase ext (weights st) (order_param_input st))))"
    and "order_param_grad st' = Some (accumulate_tensor (order_param_grad st)
                (snd (autograd_model_phase ext (weights st) (order_param_input st))))"
  using assms
  by (auto simp: model_update_def Let_def split: sum.splits)

lemma order_update_Inr:
  assumes "order_update ext i st = Inr st'"
  shows "weights st' = weights st"
    and "opt st' = opt st"
    and "(order_opt st', order_param_input st') =
           adam_order ext (order_opt st) (order_param_input st)
             (accumulate_tensor (zero_grad_tensor (order_param_grad st))
                (snd (autograd_order_phase ext (weights st) (order_param_input st))))"
    and "order_param_grad st' = Some (accumulate_tensor (zero_grad_tensor (order_param_grad st))
                (snd (autograd_order_phase ext (weights st) (order_param_input st))))"
    and "weights_grad st' = Some (accumulate_list (weights_grad st)
                (fst (autograd_order_phase ext (weights st) (order_param_input st))))"
  using assms
  by (auto simp: order_update_def Let_def split: sum.splits)

lemma train_iteration_Inr:
  assumes "train_iteration ext i st = Inr st''"
  shows "\<exists>st'. model_update ext i st = Inr st' \<and> order_update ext i st' = Inr st''"
  using assms by (auto simp: train_iteration_def split: sum.splits)

text \<open>After \<^verbatim>\<open>zero_grad\<close>, the gradient an optimizer consumes is the one of its own
  phase, whatever an earlier backward pass left there.\<close>

lemma accumulate_after_zero_grad_list:
  assumes "old = None \<or> (\<exists>a. old = Some a \<and> length a = length g)"
  shows "accumulate_list (zero_grad_list old) g = g"
proof -
  have "map2 (+) (map (\<lambda>_. 0) a) g = g" if "length a = length g" for a :: "real list"
    using that by (induction a g rule: list_induct2) simp_all
  with assms show ?thesis
    by (auto simp: accumulate_list_def zero_grad_list_def)
qed

lemma example_features:
  "features_of example_externals (Tensor 3 [[a, b, c], [d, e, f], [g, h, i], [j, k, l]])
   = Inr (Tensor 6 [[1, 0, 0, 0, 0, 0], [0, 0, 1, 0, 0, 0], [0, 1, 0, a, b, c], [0, 1, 0, d, e, f],
               [0, 1, 0, g, h, i], [0, 1, 0, j, k, l]])"
  by (simp add: example_externals_def example_atom_indices_def create_features_def stitch_eq
      nrows_def stitched_example one_hot_values)

lemma example_loss:
  "recon_loss (network example_externals [w]
       (Tensor 6 [[1, 0, 0, 0, 0, 0], [0, 0, 1, 0, 0, 0], [0, 1, 0, 0, 0, 0], [0, 1, 0, 0, 0, 0],
               [0, 1, 0, 0, 0, 0], [0, 1, 0, 0, 0, 0]]))
     (target_y example_externals) = Inr (Some 0)"
  by (simp add: example_externals_def example_network_def recon_loss_def index_cols_3
      tsub_same_shape nrows_def tmean_def tabs_def numel_def tsum_def)

lemma example_model_update:
  "model_update example_externals 0 example_state = Inr example_state_1"
proof -
  have e: "autograd_model_phase example_externals = example_autograd"
    "adam_model example_externals = example_adam_model"
    by (simp_all add: example_externals_def)
  show ?thesis
    unfolding model_update_def
    by (simp add: example_state_def example_state_1_def example_features example_loss e
      zero_grad_list_def accumulate_list_def accumulate_tensor_def
      example_autograd_def example_adam_model_def Let_def)
qed

lemma example_order_update:
  "order_update example_externals 0 example_state_1 = Inr example_state_2"
proof -
  have e: "autograd_order_phase example_externals = example_autograd"
    "adam_order example_externals = example_adam_order"
    "regularizer example_externals = example_regularizer"
    by (simp_all add: example_externals_def)
  have r: "example_regularizer (Tensor 3 [[0, 0, 0], [0, 0, 0], [0, 0, 0], [0, 0, 0]]) = Some 0"
    by (simp add: example_regularizer_def tmean_def tabs_def numel_def nrows_def tsum_def)
  show ?thesis
    unfolding order_update_def
    by (simp add: example_state_1_def example_state_2_def example_features example_loss e r
      add_loss_def zero_grad_tensor_def accumulate_list_def accumulate_tensor_def
      example_autograd_def example_adam_order_def Let_def)
qed

section \<open>The two phases of a training iteration\<close>

text \<open>
  Claim C1 as it is stated has each phase backpropagate into one group of parameters
  only. Both the weights and the order parameters are leaves that require gradients,
  and \<^verbatim>\<open>loss.backward()\<close> deposits a gradient on both in either phase: in the first
  iteration of the example the model-update phase leaves a gradient on the order
  parameters, which had none, and the order-update phase adds its gradient to the one
  the weights already carry.
\<close>

theorem backward_reaches_both_leaves_counterexample:
  "model_update example_externals 0 example_state = Inr example_state_1
   \<and> order_param_grad example_state = None
   \<and> order_param_grad example_state_1 = Some (Tensor 3 [[1, 1, 1], [1, 1, 1], [1, 1, 1], [1, 1, 1]])
   \<and> order_update example_externals 0 example_state_1 = Inr example_state_2
   \<and> weights_grad example_state_1 = Some [1]
   \<and> weights_grad example_state_2 = Some [2]"
  using example_model_update example_order_update
  by (simp add: example_state_def example_state_1_def example_state_2_def)

text \<open>
  Claim C1, amended. In every iteration of the joint training loop, the model-update
  phase zeroes the gradients of the network weights, backpropagates the reconstruction
  loss (which deposits gradients on the weights and on the order parameters alike) and
  applies one step of the weights' optimizer with the weights' gradient: the values of
  the order-parameter tensor and the state of its optimizer are unchanged. The
  subsequent order-update phase zeroes the gradient of the order parameters,
  backpropagates its loss and applies one step of the order parameters' optimizer with
  their gradient: the network weights and the state of their optimizer are unchanged.
\<close>

theorem training_phases_step_their_own_parameters:
  "(model_update ext i st = Inr st1 \<longrightarrow>
       order_param_input st1 = order_param_input st
     \<and> order_opt st1 = order_opt st
     \<and> (opt st1, weights st1) =
          adam_model ext (opt st) (weights st)
            (accumulate_list (zero_grad_list (weights_grad st))
               (fst (autograd_model_phase ext (weights st) (order_param_input st))))
     \<and> order_param_grad st1 =
          Some (accumulate_tensor (order_param_grad st)
                  (snd (autograd_model_phase ext (weights st) (order_param_input st)))))
   \<and> (order_update ext i st1 = Inr st2 \<longrightarrow>
       weights st2 = weights st1
     \<and> opt st2 = opt st1
     \<and> (order_opt st2, order_param_input st2) =
          adam_order ext (order_opt st1) (order_param_input st1)
            (accumulate_tensor (zero_grad_tensor (order_param_grad st1))
               (snd (autograd_order_phase ext (weights st1) (order_param_input st1))))
     \<and> weights_grad st2 =
          Some (accumulate_list (weights_grad st1)
                  (fst (autograd_order_phase ext (weights st1) (order_param_input st1)))))
   \<and> (train_iteration ext i st = Inr st2 \<longrightarrow>
        (\<exists>st'. model_update ext i st = Inr st' \<and> order_update ext i st' = Inr st2))"
  using model_update_Inr [of ext i st st1] order_update_Inr [of ext i st1 st2]
    train_iteration_Inr [of ext i st st2]
  by blast

theorem training_phases_step_their_own_parameters_witness:
  "model_update example_externals 0 example_state = Inr example_state_1
   \<and> order_param_input example_state_1 = order_param_input example_state
   \<and> order_opt example_state_1 = order_opt example_state
   \<and> (opt example_state_1, weights example_state_1) =
        adam_model example_externals (opt example_state) (weights example_state)
          (accumulate_list (zero_grad_list (weights_grad example_state))
             (fst (autograd_model_phase example_externals (weights example_state)
                     (order_param_input example_state))))
   \<and> order_update example_externals 0 example_state_1 = Inr example_state_2
   \<and> weights example_state_2 = weights example_state_1
   \<and> opt example_state_2 = opt example_state_1
   \<and> (order_opt example_state_2, order_param_input example_state_2) =
        adam_order example_externals (order_opt example_state_1) (order_param_input example_state_1)
          (accumulate_tensor (zero_grad_tensor (order_param_grad example_state_1))
             (snd (autograd_order_phase example_externals (weights example_state_1)
                     (order_param_input example_state_1))))
   \<and> train_iteration example_externals 0 example_state = Inr example_state_2"
proof -
  have t: "train_iteration example_externals 0 example_state = Inr example_state_2"
    by (simp add: train_iteration_def example_model_update example_order_update)
  from training_phases_step_their_own_parameters [of example_externals 0 example_state
      example_state_1 example_state_2]
    example_model_update example_order_update t
  show ?thesis by blast
qed

end
